theory Spec2Isabelle
  imports Complex_Main
begin

section \<open>JavaScript values\<close>

text \<open>
  The two programs of the repository are \<^verbatim>\<open>scripts/render-snippet.js\<close> (a command line tool
  that renders one code snippet to an image) and \<^verbatim>\<open>main.js\<close> (the reel generator, whose
  \<^verbatim>\<open>renderSnippet\<close> renders the video overlay frame).  Both are embedded here function by
  function, under the names of the source.

  A string is the list of its bytes in UTF-8.  The characters the programs look for (the
  newline, the dash and the five markup characters) are ASCII: each is one byte, and no byte
  of another character's encoding is equal to it.

  A value stored in the \<^verbatim>\<open>opts\<close> object by \<^verbatim>\<open>parseArgs\<close> is the boolean \<^verbatim>\<open>true\<close>, a string, or
  (under the key \<^verbatim>\<open>_\<close>) the array of positional arguments.  A missing property
  (\<^verbatim>\<open>undefined\<close>) is \<open>None\<close>.
\<close>

datatype jsval = JTrue | JStr string | JArr "string list"

text \<open>
  A JavaScript number is a binary64 floating-point number: a finite number, \<^verbatim>\<open>NaN\<close> or one
  of the two infinities.  A finite number is modelled by its value, a real.  The sign of zero
  is outside the model.
\<close>

datatype jsnum = Num real | NaN | PosInfinity | NegInfinity

fun isFinite :: "jsnum \<Rightarrow> bool" where
  "isFinite (Num r) = True"
| "isFinite NaN = False"
| "isFinite PosInfinity = False"
| "isFinite NegInfinity = False"

text \<open>
  Rounding to binary64, as every arithmetic operation of the language and every decimal
  literal does it.  The exponent of a number at least 1 is found by halving, that of a smaller
  one by doubling; below \<open>2 powi (- 1022)\<close> (the subnormal numbers) the exponent stays at
  \<open>- 1022\<close>.  A number is rounded to the nearest multiple of \<open>2 powi (exponent - 52)\<close>, to
  the even multiple when it is half way between two, and the result is an infinity when its
  magnitude reaches \<open>2 ^ 1024\<close>.
\<close>

function binade_up :: "real \<Rightarrow> int" where
  "binade_up x = (if x < 2 then 0 else binade_up (x / 2) + 1)"
  by pat_completeness auto
termination
proof (relation "measure (\<lambda>x. nat \<lfloor>x\<rfloor>)")
  show "wf (measure (\<lambda>x::real. nat \<lfloor>x\<rfloor>))" by simp
next
  fix x :: real
  assume "\<not> x < 2"
  then have "x / 2 \<le> x - 1" by simp
  then have "\<lfloor>x / 2\<rfloor> \<le> \<lfloor>x - 1\<rfloor>" by (rule floor_mono)
  moreover have "\<lfloor>x - 1\<rfloor> = \<lfloor>x\<rfloor> - 1" by simp
  moreover have "2 \<le> \<lfloor>x\<rfloor>" using \<open>\<not> x < 2\<close> by (simp add: le_floor_iff)
  ultimately show "(x / 2, x) \<in> measure (\<lambda>x. nat \<lfloor>x\<rfloor>)" by simp
qed

function binade_down :: "real \<Rightarrow> int" where
  "binade_down x = (if x \<le> 0 \<or> 1 \<le> x then 0 else binade_down (x * 2) - 1)"
  by pat_completeness auto
termination
proof (relation "measure (\<lambda>x. nat \<lceil>1 / x\<rceil>)")
  show "wf (measure (\<lambda>x::real. nat \<lceil>1 / x\<rceil>))" by simp
next
  fix x :: real
  assume a: "\<not> (x \<le> 0 \<or> 1 \<le> x)"
  then have x: "0 < x" "x < 1" by auto
  then have y: "1 < 1 / x" by simp
  have "\<lceil>1 / (x * 2)\<rceil> < \<lceil>1 / x\<rceil>"
  proof (cases "1 / x \<le> 2")
    case True
    then have "1 / (x * 2) \<le> 1" using x by (simp add: field_simps)
    then have "\<lceil>1 / (x * 2)\<rceil> \<le> 1" by (simp add: ceiling_le_iff)
    moreover have "1 < \<lceil>1 / x\<rceil>" using y by (simp add: less_ceiling_iff)
    ultimately show ?thesis by linarith
  next
    case False
    then have "1 / (x * 2) \<le> 1 / x - 1" using x by (simp add: field_simps)
    then have "\<lceil>1 / (x * 2)\<rceil> \<le> \<lceil>1 / x - 1\<rceil>" by (rule ceiling_mono)
    then show ?thesis by simp
  qed
  moreover have "0 < \<lceil>1 / x\<rceil>" using x by (simp add: less_ceiling_iff)
  ultimately show "(x * 2, x) \<in> measure (\<lambda>x. nat \<lceil>1 / x\<rceil>)" by simp
qed

definition exponent :: "real \<Rightarrow> int" where
  "exponent x = (if 1 \<le> \<bar>x\<bar> then binade_up \<bar>x\<bar> else max (binade_down \<bar>x\<bar>) (- 1022))"

definition round_half_even :: "real \<Rightarrow> int" where
  "round_half_even y =
     (let n = \<lfloor>y\<rfloor>
      in if y - of_int n < 1 / 2 then n
         else if 1 / 2 < y - of_int n then n + 1
         else if even n then n else n + 1)"

definition nearest64 :: "real \<Rightarrow> real" where
  "nearest64 x = (let u = 2 powi (exponent x - 52) in of_int (round_half_even (x / u)) * u)"

definition overflow :: "real \<Rightarrow> jsnum" where
  "overflow r =
     (if 2 ^ 1024 \<le> r then PosInfinity
      else if r \<le> - (2 ^ 1024) then NegInfinity
      else Num r)"

definition round64 :: "real \<Rightarrow> jsnum" where
  "round64 x = overflow (nearest64 x)"

text \<open>
  Sum and product: the exact result of two finite operands, rounded; the rules of the
  infinities otherwise.
\<close>

fun jadd :: "jsnum \<Rightarrow> jsnum \<Rightarrow> jsnum" where
  "jadd (Num a) (Num b) = round64 (a + b)"
| "jadd NaN b = NaN"
| "jadd a NaN = NaN"
| "jadd PosInfinity NegInfinity = NaN"
| "jadd NegInfinity PosInfinity = NaN"
| "jadd PosInfinity b = PosInfinity"
| "jadd a PosInfinity = PosInfinity"
| "jadd NegInfinity b = NegInfinity"
| "jadd a NegInfinity = NegInfinity"

fun jneg :: "jsnum \<Rightarrow> jsnum" where
  "jneg (Num a) = Num (- a)"
| "jneg NaN = NaN"
| "jneg PosInfinity = NegInfinity"
| "jneg NegInfinity = PosInfinity"

definition jsub :: "jsnum \<Rightarrow> jsnum \<Rightarrow> jsnum" where
  "jsub a b = jadd a (jneg b)"

text \<open>The product of an infinity and a finite number takes the sign of the product; with zero it is \<^verbatim>\<open>NaN\<close>.\<close>

definition inf_times :: "bool \<Rightarrow> real \<Rightarrow> jsnum" where
  "inf_times positive b =
     (if b = 0 then NaN else if (0 < b) = positive then PosInfinity else NegInfinity)"

fun jmul :: "jsnum \<Rightarrow> jsnum \<Rightarrow> jsnum" where
  "jmul (Num a) (Num b) = round64 (a * b)"
| "jmul NaN b = NaN"
| "jmul a NaN = NaN"
| "jmul PosInfinity (Num b) = inf_times True b"
| "jmul NegInfinity (Num b) = inf_times False b"
| "jmul (Num a) PosInfinity = inf_times True a"
| "jmul (Num a) NegInfinity = inf_times False a"
| "jmul PosInfinity PosInfinity = PosInfinity"
| "jmul NegInfinity NegInfinity = PosInfinity"
| "jmul PosInfinity NegInfinity = NegInfinity"
| "jmul NegInfinity PosInfinity = NegInfinity"

text \<open>\<^verbatim>\<open>Math.ceil\<close> and \<^verbatim>\<open>Math.max\<close>.\<close>

fun Math_ceil :: "jsnum \<Rightarrow> jsnum" where
  "Math_ceil (Num a) = Num (of_int \<lceil>a\<rceil>)"
| "Math_ceil a = a"

fun Math_max :: "jsnum \<Rightarrow> jsnum \<Rightarrow> jsnum" where
  "Math_max (Num a) (Num b) = Num (max a b)"
| "Math_max NaN b = NaN"
| "Math_max a NaN = NaN"
| "Math_max PosInfinity b = PosInfinity"
| "Math_max a PosInfinity = PosInfinity"
| "Math_max NegInfinity b = b"
| "Math_max a NegInfinity = a"

text \<open>The comparison \<^verbatim>\<open>a <= b\<close> of two numbers: false as soon as one is \<^verbatim>\<open>NaN\<close>.\<close>

fun jle :: "jsnum \<Rightarrow> jsnum \<Rightarrow> bool" where
  "jle (Num a) (Num b) = (a \<le> b)"
| "jle NaN b = False"
| "jle a NaN = False"
| "jle NegInfinity b = True"
| "jle a PosInfinity = True"
| "jle PosInfinity b = False"
| "jle a NegInfinity = False"

text \<open>
  Truthiness of an option value, and \<^verbatim>\<open>a || b\<close>: the left operand when it is truthy, else
  the right one.  The only falsy values that occur are \<^verbatim>\<open>undefined\<close> and the empty string.
\<close>

fun truthy :: "jsval option \<Rightarrow> bool" where
  "truthy None = False"
| "truthy (Some (JStr s)) = (s \<noteq> [])"
| "truthy (Some v) = True"

definition js_or :: "jsval option \<Rightarrow> jsval option \<Rightarrow> jsval option" where
  "js_or a b = (if truthy a then a else b)"

definition or_default :: "jsval option \<Rightarrow> string \<Rightarrow> jsval" where
  "or_default a d = (case js_or a (Some (JStr d)) of Some v \<Rightarrow> v | None \<Rightarrow> JStr d)"

text \<open>\<^verbatim>\<open>String(value)\<close>, which is also what a template literal inserts.\<close>

fun join_with :: "string \<Rightarrow> string list \<Rightarrow> string" where
  "join_with sep [] = []"
| "join_with sep [l] = l"
| "join_with sep (l # ls) = l @ sep @ join_with sep ls"

fun js_String :: "jsval \<Rightarrow> string" where
  "js_String JTrue = ''true''"
| "js_String (JStr s) = s"
| "js_String (JArr xs) = join_with '','' xs"

section \<open>Escaping\<close>

text \<open>
  \<^verbatim>\<open>s.replaceAll(c, r)\<close> for a pattern \<open>c\<close> of one character: every occurrence of the
  character is replaced, the rest of the string is kept.
\<close>

fun replaceAll :: "char \<Rightarrow> string \<Rightarrow> string \<Rightarrow> string" where
  "replaceAll c r [] = []"
| "replaceAll c r (x # xs) = (if x = c then r else [x]) @ replaceAll c r xs"

text \<open>
  \<^verbatim>\<open>escapeHtml\<close> of \<^verbatim>\<open>scripts/render-snippet.js\<close>: five replacements in the order of the
  source, the ampersand first.
\<close>

definition escapeHtml :: "string \<Rightarrow> string" where
  \<open>escapeHtml v =
     replaceAll (CHR 0x27) ''&#39;''
       (replaceAll (CHR 0x22) ''&quot;''
         (replaceAll (CHR ''>'') ''&gt;''
           (replaceAll (CHR ''<'') ''&lt;''
             (replaceAll (CHR ''&'') ''&amp;'' v))))\<close>

section \<open>The composed documents\<close>

text \<open>
  Both templates are lists of the lines of the template literal, joined by newlines.  A number
  is inserted through \<open>numToString\<close>, the conversion of a number to its decimal text, which
  is a parameter of the model.
\<close>

definition buildHtml ::
  "(jsnum \<Rightarrow> string) \<Rightarrow> string \<Rightarrow> jsnum \<Rightarrow> jsnum \<Rightarrow> jsval \<Rightarrow> jsval \<Rightarrow> jsval \<Rightarrow> string \<Rightarrow> jsnum \<Rightarrow> string" where
  \<open>buildHtml numToString codeHtml width padding background font title themeName fontSize =
   join_with ''\<newline>'' [
     ''<!doctype html>'',
     ''<html lang="en">'',
     ''<head>'',
     ''  <meta charset="utf-8" />'',
     ''  <meta name="viewport" content="width=device-width, initial-scale=1" />'',
     ''  <title>snippet</title>'',
     ''  <style>'',
     ''    :root {'',
     ''      --frame-radius: 16px;'',
     ''      --frame-bg: #0b1120;'',
     ''      --chrome-bg: linear-gradient(90deg, #0f172a 0%, #111827 100%);'',
     ''      --chrome-border: rgba(148, 163, 184, 0.16);'',
     ''      --shadow: 0 30px 60px rgba(2, 6, 23, 0.6);'',
     ''    }'',
     ''    * { box-sizing: border-box; }'',
     ''    body {'',
     ''      margin: 0;'',
     ''      min-height: 100vh;'',
     ''      display: flex;'',
     ''      align-items: center;'',
     ''      justify-content: center;'',
     ''      background: #0b1120;'',
     ''      font-family: '' @ js_String font @ '';'',
     ''    }'',
     ''    .canvas {'',
     ''      display: inline-block;'',
     ''      padding: '' @ numToString padding @ ''px;'',
     ''      background: '' @ js_String background @ '';'',
     ''      border-radius: 28px;'',
     ''    }'',
     ''    .frame {'',
     ''      width: '' @ numToString width @ ''px;'',
     ''      background: var(--frame-bg);'',
     ''      border-radius: var(--frame-radius);'',
     ''      box-shadow: var(--shadow);'',
     ''      overflow: hidden;'',
     ''      border: 1px solid rgba(148, 163, 184, 0.18);'',
     ''    }'',
     ''    .chrome {'',
     ''      height: 40px;'',
     ''      display: flex;'',
     ''      align-items: center;'',
     ''      padding: 0 16px;'',
     ''      gap: 12px;'',
     ''      background: var(--chrome-bg);'',
     ''      border-bottom: 1px solid var(--chrome-border);'',
     ''      color: #cbd5f5;'',
     ''      font-size: 12px;'',
     ''      letter-spacing: 0.06em;'',
     ''      text-transform: uppercase;'',
     ''    }'',
     ''    .dots { display: flex; gap: 8px; }'',
     ''    .dot { width: 10px; height: 10px; border-radius: 999px; }'',
     ''    .dot.red { background: #f87171; }'',
     ''    .dot.yellow { background: #facc15; }'',
     ''    .dot.green { background: #4ade80; }'',
     ''    .title { opacity: 0.7; }'',
     ''    .code {'',
     ''      padding: 24px;'',
     ''      font-size: '' @ numToString fontSize @ ''px;'',
     ''      line-height: 1.6;'',
     ''      color: #e2e8f0;'',
     ''    }'',
     ''    .code pre,'',
     ''    .code code {'',
     ''      margin: 0;'',
     ''      white-space: pre;'',
     ''      font-family: inherit;'',
     ''    }'',
     ''    .code pre.shiki {'',
     ''      background: transparent !important;'',
     ''      padding: 0 !important;'',
     ''    }'',
     ''    .theme-label {'',
     ''      margin-left: auto;'',
     ''      opacity: 0.4;'',
     ''      font-size: 11px;'',
     ''    }'',
     ''  </style>'',
     ''</head>'',
     ''<body>'',
     ''  <div class="canvas">'',
     ''    <div class="frame">'',
     ''      <div class="chrome">'',
     ''        <div class="dots">'',
     ''          <span class="dot red"></span>'',
     ''          <span class="dot yellow"></span>'',
     ''          <span class="dot green"></span>'',
     ''        </div>'',
     ''        <div class="title">'' @ escapeHtml (js_String title) @ ''</div>'',
     ''        <div class="theme-label">'' @ escapeHtml themeName @ ''</div>'',
     ''      </div>'',
     ''      <div class="code">'',
     ''        '' @ codeHtml,
     ''      </div>'',
     ''    </div>'',
     ''  </div>'',
     ''</body>'',
     ''</html>''
   ]\<close>

text \<open>
  \<^verbatim>\<open>buildHtml\<close> of \<^verbatim>\<open>main.js\<close>, the video overlay variant.  Its \<^verbatim>\<open>background\<close> parameter is
  not used by the template.  The difficulty is a field of the parsed model response; it is
  modelled as a string.
\<close>

definition reel_buildHtml ::
  "(jsnum \<Rightarrow> string) \<Rightarrow> string \<Rightarrow> jsnum \<Rightarrow> jsnum \<Rightarrow> jsnum \<Rightarrow> string \<Rightarrow> string \<Rightarrow> jsnum \<Rightarrow> string \<Rightarrow> string" where
  \<open>reel_buildHtml numToString codeHtml width height padding background font fontSize difficulty =
   join_with ''\<newline>'' [
     ''<!doctype html>'',
     ''<html lang="en">'',
     ''<head>'',
     ''  <meta charset="utf-8" />'',
     ''  <meta name="viewport" content="width=device-width, initial-scale=1" />'',
     ''  <title>snippet</title>'',
     ''  <style>'',
     ''    :root {'',
     ''      --frame-radius: 16px;'',
     ''      --frame-bg: #0b1120;'',
     ''      --chrome-bg: linear-gradient(90deg, #0f172a 0%, #111827 100%);'',
     ''      --chrome-border: rgba(148, 163, 184, 0.16);'',
     ''      --shadow: 0 30px 60px rgba(2, 6, 23, 0.6);'',
     ''    }'',
     ''    * { box-sizing: border-box; }'',
     ''    body {'',
     ''      margin: 0;'',
     ''      width: '' @ numToString width @ ''px;'',
     ''      height: '' @ numToString height @ ''px;'',
     ''      display: flex;'',
     ''      align-items: center;'',
     ''      justify-content: center;'',
     ''      flex-direction: column;'',
     ''      gap: 60px;'',
     ''      background: transparent;'',
     ''      font-family: '' @ font @ '';'',
     ''      padding: '' @ numToString padding @ ''px;'',
     ''    }'',
     ''    .header {'',
     ''      text-align: center;'',
     ''      color: #e2e8f0;'',
     ''      padding: 30px 60px;'',
     ''    }'',
     ''    .header h1 {'',
     ''      font-size: 72px;'',
     ''      font-weight: 700;'',
     ''      margin: 0 0 24px 0;'',
     ''      letter-spacing: -0.02em;'',
     ''      text-shadow: '',
     ''        -2px -2px 0 #000,'',
     ''        2px -2px 0 #000,'',
     ''        -2px 2px 0 #000,'',
     ''        2px 2px 0 #000,'',
     ''        0 0 20px rgba(0, 0, 0, 0.5);'',
     ''    }'',
     ''    .level {'',
     ''      font-size: 42px;'',
     ''      font-weight: 600;'',
     ''      color: #818cf8;'',
     ''      text-transform: uppercase;'',
     ''      letter-spacing: 0.1em;'',
     ''      text-shadow: '',
     ''        -1.5px -1.5px 0 #000,'',
     ''        1.5px -1.5px 0 #000,'',
     ''        -1.5px 1.5px 0 #000,'',
     ''        1.5px 1.5px 0 #000,'',
     ''        0 0 15px rgba(0, 0, 0, 0.5);'',
     ''    }'',
     ''    .frame {'',
     ''      width: '' @ numToString (jsub width (jmul padding (Num 2))) @ ''px;'',
     ''      background: var(--frame-bg);'',
     ''      border-radius: var(--frame-radius);'',
     ''      box-shadow: var(--shadow);'',
     ''      overflow: hidden;'',
     ''      border: 1px solid rgba(148, 163, 184, 0.18);'',
     ''      backdrop-filter: blur(10px);'',
     ''    }'',
     ''    .chrome {'',
     ''      height: 50px;'',
     ''      display: flex;'',
     ''      align-items: center;'',
     ''      padding: 0 20px;'',
     ''      gap: 16px;'',
     ''      background: var(--chrome-bg);'',
     ''      border-bottom: 1px solid var(--chrome-border);'',
     ''      color: #cbd5f5;'',
     ''      font-size: 14px;'',
     ''      letter-spacing: 0.06em;'',
     ''      text-transform: uppercase;'',
     ''    }'',
     ''    .dots { display: flex; gap: 10px; }'',
     ''    .dot { width: 14px; height: 14px; border-radius: 999px; }'',
     ''    .dot.red { background: #f87171; }'',
     ''    .dot.yellow { background: #facc15; }'',
     ''    .dot.green { background: #4ade80; }'',
     ''    .code {'',
     ''      padding: 40px;'',
     ''      font-size: '' @ numToString fontSize @ ''px;'',
     ''      line-height: 1.6;'',
     ''      color: #e2e8f0;'',
     ''    }'',
     ''    .code pre,'',
     ''    .code code {'',
     ''      margin: 0;'',
     ''      white-space: pre;'',
     ''      font-family: inherit;'',
     ''    }'',
     ''    .code pre.shiki {'',
     ''      background: transparent !important;'',
     ''      padding: 0 !important;'',
     ''    }'',
     ''  </style>'',
     ''</head>'',
     ''<body>'',
     ''  <div class="header">'',
     ''    <h1>What Is The Output?</h1>'',
     ''    <div class="level">Level: '' @ difficulty @ ''</div>'',
     ''  </div>'',
     ''  <div class="frame">'',
     ''    <div class="chrome">'',
     ''      <div class="dots">'',
     ''        <span class="dot red"></span>'',
     ''        <span class="dot yellow"></span>'',
     ''        <span class="dot green"></span>'',
     ''      </div>'',
     ''    </div>'',
     ''    <div class="code">'',
     ''      '' @ codeHtml,
     ''    </div>'',
     ''  </div>'',
     ''</body>'',
     ''</html>''
   ]\<close>

section \<open>Errors, the environment and the observable effects\<close>

text \<open>
  A thrown value is an \<^verbatim>\<open>Error\<close> or a \<^verbatim>\<open>TypeError\<close>; the top-level handler prints its
  \<^verbatim>\<open>message\<close>.
\<close>

datatype error = Error string | TypeError string

fun message :: "error \<Rightarrow> string" where
  "message (Error m) = m"
| "message (TypeError m) = m"

record rect =
  rect_x :: real
  rect_y :: real
  rect_width :: real
  rect_height :: real

record clip =
  clip_x :: real
  clip_y :: real
  clip_width :: real
  clip_height :: real

record viewport =
  vp_width :: jsnum
  vp_height :: jsnum
  deviceScaleFactor :: jsnum

text \<open>
  The collaborators of the programs.  \<open>readFile\<close> is \<^verbatim>\<open>fs.readFile(path, "utf8")\<close>,
  \<open>stdin_data\<close> is \<open>None\<close> when standard input is a terminal and the piped text otherwise,
  \<open>bundledThemes\<close> and \<open>bundledLanguages\<close> are the keys of the highlighter's two tables in
  their order, \<open>codeToHtml\<close> is the highlighter (creation and call), \<open>Number_of\<close> is
  \<^verbatim>\<open>Number(value)\<close>, \<open>numToString\<close> the text of a number, \<open>measure_frame\<close> the bounding
  rectangle of the element \<^verbatim>\<open>.frame\<close> in the loaded document (\<open>None\<close> when the selector finds
  nothing), \<open>dirname\<close> is \<^verbatim>\<open>path.dirname\<close> and \<open>mkdir\<close> is \<^verbatim>\<open>fs.mkdir\<close> with
  \<^verbatim>\<open>recursive: true\<close> (\<open>None\<close> when it succeeds).  Launching the browser, opening a page,
  setting the viewport and the content, taking the screenshot and closing are taken to succeed.
\<close>

record world =
  readFile :: "jsval \<Rightarrow> error + string"
  stdin_data :: "string option"
  bundledThemes :: "string list"
  bundledLanguages :: "string list"
  codeToHtml :: "string \<Rightarrow> jsval \<Rightarrow> jsval \<Rightarrow> error + string"
  Number_of :: "jsval \<Rightarrow> jsnum"
  numToString :: "jsnum \<Rightarrow> string"
  measure_frame :: "string \<Rightarrow> viewport \<Rightarrow> rect option"
  dirname :: "jsval \<Rightarrow> error + string"
  mkdir :: "string \<Rightarrow> error option"

text \<open>
  What a run does to the outside, in order.  \<open>Mkdir\<close> is a directory that was created,
  \<open>Screenshot\<close> an image written to \<open>path\<close> with the given \<^verbatim>\<open>clip\<close> (if any) and
  \<^verbatim>\<open>omitBackground\<close> flag.
\<close>

datatype event =
    Stdout string
  | Stderr string
  | Log string
  | Launch
  | NewPage
  | SetViewport viewport
  | SetContent string
  | Evaluate
  | Mkdir string
  | Screenshot jsval "clip option" bool
  | PageClose
  | BrowserClose

record outcome =
  events :: "event list"
  exit_code :: nat

section \<open>scripts/render-snippet.js\<close>

definition DEFAULTS_font :: string where
  \<open>DEFAULTS_font = ''ui-monospace, SFMono-Regular, Menlo, Monaco, Consolas, 'Liberation Mono', 'Courier New', monospace''\<close>

definition DEFAULTS_background :: string where
  \<open>DEFAULTS_background = ''radial-gradient(1200px circle at 10% 20%, #1f2937 0%, #0f172a 45%, #020617 100%)''\<close>

fun startsWith :: "string \<Rightarrow> string \<Rightarrow> bool" where
  "startsWith s [] = True"
| "startsWith [] (p # ps) = False"
| "startsWith (x # xs) (p # ps) = (x = p \<and> startsWith xs ps)"

text \<open>
  \<^verbatim>\<open>parseArgs\<close>: the loop over \<^verbatim>\<open>argv\<close>.  A word that starts with two dashes names an
  option; it takes the next word as its value unless that word is missing, empty or an option
  itself, and is \<^verbatim>\<open>true\<close> then.  Every other word is pushed onto \<^verbatim>\<open>opts._\<close>, which fails
  once an option named \<^verbatim>\<open>_\<close> has replaced the array.
\<close>

definition push_positional :: "(string \<rightharpoonup> jsval) \<Rightarrow> string \<Rightarrow> error + (string \<rightharpoonup> jsval)" where
  "push_positional opts arg =
     (case opts ''_'' of
        Some (JArr xs) \<Rightarrow> Inr (opts(''_'' \<mapsto> JArr (xs @ [arg])))
      | _ \<Rightarrow> Inl (TypeError ''opts._.push is not a function''))"

fun parseArgs_from :: "(string \<rightharpoonup> jsval) \<Rightarrow> string list \<Rightarrow> error + (string \<rightharpoonup> jsval)" where
  "parseArgs_from opts [] = Inr opts"
| "parseArgs_from opts (arg # rest) =
     (if startsWith arg ''--'' then
        (case rest of
           [] \<Rightarrow> parseArgs_from (opts(drop 2 arg \<mapsto> JTrue)) rest
         | next # rest' \<Rightarrow>
             if next = [] \<or> startsWith next ''--''
             then parseArgs_from (opts(drop 2 arg \<mapsto> JTrue)) rest
             else parseArgs_from (opts(drop 2 arg \<mapsto> JStr next)) rest')
      else
        (case push_positional opts arg of
           Inl e \<Rightarrow> Inl e
         | Inr opts' \<Rightarrow> parseArgs_from opts' rest))"

definition parseArgs :: "string list \<Rightarrow> error + (string \<rightharpoonup> jsval)" where
  "parseArgs argv = parseArgs_from [''_'' \<mapsto> JArr []] argv"

definition help_text :: string where
  \<open>help_text = join_with ''\<newline>'' [
     ''Usage:'',
     ''  node scripts/render-snippet.js --input <file> --output <file>'',
     ''  cat snippet.js | node scripts/render-snippet.js --lang js'',
     '''',
     ''Options:'',
     ''  --input <path>     Read code from file (default: stdin)'',
     ''  --output <path>    Output image path (default: snippet.png)'',
     ''  --lang <id>        Language for highlighting (default: javascript)'',
     ''  --theme <id>       Shiki theme (default: nord)'',
     ''  --width <px>       Code frame width (default: 960)'',
     ''  --padding <px>     Canvas padding around frame (default: 64)'',
     ''  --background <css> Canvas background CSS (default: gradient)'',
     ''  --font <css>       Font-family for code (default: system monospace stack)'',
     ''  --font-size <px>  Code font size (default: 16)'',
     ''  --title <text>     Window title label (default: snippet)'',
     ''  --scale <number>   Device pixel ratio (default: 2)'',
     ''  --help             Show this help''
   ] @ ''\<newline>''\<close>

text \<open>
  \<^verbatim>\<open>readInput\<close>: the file of \<^verbatim>\<open>--input\<close>, else the first positional argument, else
  standard input unless it is a terminal.  \<^verbatim>\<open>opts._\<close> is the array of positional arguments,
  or the value of an option named \<^verbatim>\<open>_\<close>: a string has a length and a first character,
  \<^verbatim>\<open>true\<close> has no length.
\<close>

definition readInput :: "world \<Rightarrow> (string \<rightharpoonup> jsval) \<Rightarrow> error + string" where
  "readInput w opts =
     (case (if truthy (opts ''input'') then opts ''input'' else None) of
        Some path \<Rightarrow> readFile w path
      | None \<Rightarrow>
         (case opts ''_'' of
            None \<Rightarrow> Inl (TypeError ''Cannot read properties of undefined (reading 'length')'')
          | Some (JArr (p # ps)) \<Rightarrow> readFile w (JStr p)
          | Some (JStr (c # cs)) \<Rightarrow> readFile w (JStr [c])
          | Some other \<Rightarrow>
             (case stdin_data w of
                None \<Rightarrow> Inl (Error ''No input provided. Use --input or pipe code via stdin.'')
              | Some text \<Rightarrow> Inr text)))"

text \<open>\<^verbatim>\<open>toNumber\<close>: the fallback for a missing value and for one that is not a finite number.\<close>

definition toNumber :: "(jsval \<Rightarrow> jsnum) \<Rightarrow> jsval option \<Rightarrow> jsnum \<Rightarrow> jsnum" where
  "toNumber Number value fallback =
     (case value of
        None \<Rightarrow> fallback
      | Some v \<Rightarrow> (let num = Number v in if isFinite num then num else fallback))"

text \<open>\<^verbatim>\<open>estimateHeight\<close>; its parameter \<^verbatim>\<open>fontSize\<close> is not used by the body.\<close>

definition estimateHeight :: "jsnum \<Rightarrow> jsnum \<Rightarrow> jsnum \<Rightarrow> jsnum \<Rightarrow> jsnum \<Rightarrow> jsnum \<Rightarrow> jsnum" where
  "estimateHeight lines fontSize lineHeight chromeHeight codePadding canvasPadding =
     (let codeHeight = jadd (jmul lines lineHeight) (jmul codePadding (Num 2))
      in Math_ceil (jadd (jadd (jadd codeHeight chromeHeight) (jmul canvasPadding (Num 2))) (Num 40)))"

text \<open>
  \<^verbatim>\<open>resolveTheme\<close> and \<^verbatim>\<open>resolveLanguage\<close>.  \<^verbatim>\<open>available.includes(v)\<close> compares with
  strict equality, so only a string can be found; \<^verbatim>\<open>available[0] || fallback\<close> is the
  fallback when the list is empty or starts with the empty string.
\<close>

definition array_includes :: "string list \<Rightarrow> jsval \<Rightarrow> bool" where
  "array_includes available v = (case v of JStr s \<Rightarrow> s \<in> set available | _ \<Rightarrow> False)"

definition first_or :: "string list \<Rightarrow> string \<Rightarrow> string" where
  "first_or available fallback =
     (case available of [] \<Rightarrow> fallback | a # _ \<Rightarrow> if a = [] then fallback else a)"

definition resolveTheme :: "string list \<Rightarrow> jsval \<Rightarrow> string \<Rightarrow> jsval" where
  "resolveTheme available requested fallback =
     (if array_includes available requested then requested
      else if fallback \<in> set available then JStr fallback
      else JStr (first_or available fallback))"

definition aliases :: "(string \<times> string) list" where
  "aliases =
     [(''js'', ''javascript''), (''ts'', ''typescript''), (''py'', ''python''),
      (''rb'', ''ruby''), (''sh'', ''bash'')]"

definition normalize_alias :: "jsval \<Rightarrow> jsval" where
  "normalize_alias requested =
     (case requested of
        JStr s \<Rightarrow> (case map_of aliases s of Some a \<Rightarrow> JStr a | None \<Rightarrow> requested)
      | _ \<Rightarrow> requested)"

definition resolveLanguage :: "string list \<Rightarrow> jsval \<Rightarrow> string \<Rightarrow> jsval" where
  "resolveLanguage available requested fallback =
     (let normalized = normalize_alias requested
      in if array_includes available normalized then normalized
         else if fallback \<in> set available then JStr fallback
         else JStr (first_or available fallback))"

text \<open>\<^verbatim>\<open>code.split("\n")\<close>: the pieces between the newlines, one more than there are newlines.\<close>

fun split_newline :: "string \<Rightarrow> string list" where
  "split_newline [] = [[]]"
| "split_newline (c # cs) =
     (if c = CHR ''\<newline>'' then [] # split_newline cs
      else (case split_newline cs of
              [] \<Rightarrow> [[c]]
            | l # ls \<Rightarrow> (c # l) # ls))"

text \<open>
  The callback of \<^verbatim>\<open>page.evaluate\<close>: \<open>None\<close> (\<^verbatim>\<open>null\<close>) without a frame, else its bounding
  rectangle in whole pixels.
\<close>

definition frame_clip :: "rect option \<Rightarrow> clip option" where
  "frame_clip frame =
     (case frame of
        None \<Rightarrow> None
      | Some rect \<Rightarrow>
          Some \<lparr>clip_x = of_int \<lfloor>rect_x rect\<rfloor>,
                clip_y = of_int \<lfloor>rect_y rect\<rfloor>,
                clip_width = of_int \<lceil>rect_width rect\<rceil>,
                clip_height = of_int \<lceil>rect_height rect\<rceil>\<rparr>)"

text \<open>
  The local constants of \<^verbatim>\<open>main\<close> that are read from the options, in the order of the
  source.
\<close>

record settings =
  requestedLang :: jsval
  requestedTheme :: jsval
  s_width :: jsnum
  s_padding :: jsnum
  s_font :: jsval
  s_title :: jsval
  s_background :: jsval
  s_output :: jsval
  s_scale :: jsnum
  s_fontSize :: jsnum

definition read_settings :: "world \<Rightarrow> (string \<rightharpoonup> jsval) \<Rightarrow> settings" where
  "read_settings w opts =
     \<lparr>requestedLang = or_default (opts ''lang'') ''javascript'',
      requestedTheme = or_default (opts ''theme'') ''nord'',
      s_width = toNumber (Number_of w) (opts ''width'') (Num 960),
      s_padding = toNumber (Number_of w) (opts ''padding'') (Num 64),
      s_font = or_default (opts ''font'') DEFAULTS_font,
      s_title = or_default (opts ''title'') ''snippet'',
      s_background = or_default (opts ''background'') DEFAULTS_background,
      s_output = or_default (opts ''output'') ''snippet.png'',
      s_scale = toNumber (Number_of w) (opts ''scale'') (Num 2),
      s_fontSize =
        toNumber (Number_of w)
          (js_or (js_or (opts ''font-size'') (opts ''fontSize'')) (opts ''fontsize'')) (Num 16)\<rparr>"

text \<open>The two warnings on the diagnostic stream.\<close>

definition not_found_warning :: "string \<Rightarrow> jsval \<Rightarrow> jsval \<Rightarrow> event list" where
  \<open>not_found_warning kind requested resolved =
     (if truthy (Some requested) \<and> resolved \<noteq> requested
      then [Stderr (kind @ '' "'' @ js_String requested @ ''" not found. Using "''
                      @ js_String resolved @ ''".\<newline>'')]
      else [])\<close>

text \<open>
  The line count and the height estimate of \<^verbatim>\<open>main\<close>.  The literal \<^verbatim>\<open>1.6\<close> is the
  binary64 number nearest to 1.6.  A JavaScript string has fewer than \<open>2 ^ 53\<close> elements,
  so the number of its lines is a binary64 number.
\<close>

definition lineCount :: "string \<Rightarrow> nat" where
  "lineCount code = length (split_newline code)"

definition estimatedHeight :: "string \<Rightarrow> jsnum \<Rightarrow> jsnum \<Rightarrow> jsnum" where
  "estimatedHeight code fontSize padding =
     (let lineHeight = jmul fontSize (round64 1.6)
      in estimateHeight (Num (real (lineCount code))) fontSize lineHeight (Num 40) (Num 24) padding)"

definition session_viewport :: "settings \<Rightarrow> string \<Rightarrow> viewport" where
  "session_viewport s code =
     \<lparr>vp_width = Math_max (jadd (s_width s) (jmul (s_padding s) (Num 2))) (Num 320),
      vp_height = Math_max (estimatedHeight code (s_fontSize s) (s_padding s)) (Num 480),
      deviceScaleFactor = s_scale s\<rparr>"

text \<open>
  The body of the \<^verbatim>\<open>try\<close> block: the events up to the point where it returns or throws,
  and the error thrown (if any).
\<close>

definition page_session :: "world \<Rightarrow> viewport \<Rightarrow> string \<Rightarrow> jsval \<Rightarrow> event list \<times> error option" where
  "page_session w vp html output =
     (let loaded = [NewPage, SetViewport vp, SetContent html, Evaluate]
      in case frame_clip (measure_frame w html vp) of
           None \<Rightarrow> (loaded, Some (Error ''Failed to locate canvas for screenshot.''))
         | Some c \<Rightarrow>
            (case dirname w output of
               Inl e \<Rightarrow> (loaded, Some e)
             | Inr dir \<Rightarrow>
                (case mkdir w dir of
                   Some e \<Rightarrow> (loaded, Some e)
                 | None \<Rightarrow> (loaded @ [Mkdir dir, Screenshot output (Some c) False], None))))"

text \<open>
  \<^verbatim>\<open>main\<close> after the input has been read: options, resolution and warnings, highlighting,
  the browser session with its \<^verbatim>\<open>finally\<close> clause, and the closing message.
\<close>

definition resolved_theme :: "world \<Rightarrow> settings \<Rightarrow> jsval" where
  "resolved_theme w s = resolveTheme (bundledThemes w) (requestedTheme s) ''nord''"

definition resolved_lang :: "world \<Rightarrow> settings \<Rightarrow> jsval" where
  "resolved_lang w s = resolveLanguage (bundledLanguages w) (requestedLang s) ''javascript''"

definition warnings :: "world \<Rightarrow> settings \<Rightarrow> event list" where
  "warnings w s =
     not_found_warning ''Theme'' (requestedTheme s) (resolved_theme w s)
     @ not_found_warning ''Language'' (requestedLang s) (resolved_lang w s)"

definition session_html :: "world \<Rightarrow> settings \<Rightarrow> string \<Rightarrow> string" where
  "session_html w s codeHtml =
     buildHtml (numToString w) codeHtml (s_width s) (s_padding s) (s_background s) (s_font s)
       (s_title s) (js_String (resolved_theme w s)) (s_fontSize s)"

definition render :: "world \<Rightarrow> (string \<rightharpoonup> jsval) \<Rightarrow> string \<Rightarrow> event list \<times> error option" where
  \<open>render w opts code =
     (let s = read_settings w opts
      in case codeToHtml w code (resolved_lang w s) (resolved_theme w s) of
           Inl e \<Rightarrow> (warnings w s, Some e)
         | Inr codeHtml \<Rightarrow>
            (case page_session w (session_viewport s code) (session_html w s codeHtml) (s_output s) of
               (evs, Some e) \<Rightarrow> (warnings w s @ [Launch] @ evs @ [BrowserClose], Some e)
             | (evs, None) \<Rightarrow>
                 (warnings w s @ [Launch] @ evs @ [BrowserClose,
                    Stdout (''Wrote '' @ js_String (s_output s) @ ''\<newline>'')], None)))\<close>

definition main_body :: "world \<Rightarrow> string list \<Rightarrow> event list \<times> error option" where
  "main_body w argv =
     (case parseArgs argv of
        Inl e \<Rightarrow> ([], Some e)
      | Inr opts \<Rightarrow>
          if truthy (opts ''help'') then ([Stdout help_text], None)
          else (case readInput w opts of
                  Inl e \<Rightarrow> ([], Some e)
                | Inr code \<Rightarrow> render w opts code))"

text \<open>The program: \<^verbatim>\<open>main().catch(...)\<close> prints the message of the error and exits with 1.\<close>

definition main :: "world \<Rightarrow> string list \<Rightarrow> outcome" where
  \<open>main w argv =
     (case main_body w argv of
        (evs, None) \<Rightarrow> \<lparr>events = evs, exit_code = 0\<rparr>
      | (evs, Some err) \<Rightarrow> \<lparr>events = evs @ [Stderr (message err @ ''\<newline>'')], exit_code = 1\<rparr>)\<close>

section \<open>main.js: the overlay frame\<close>

definition reel_viewport :: viewport where
  "reel_viewport = \<lparr>vp_width = Num 1080, vp_height = Num 1920, deviceScaleFactor = Num 2\<rparr>"

text \<open>
  \<^verbatim>\<open>renderSnippet\<close> of \<^verbatim>\<open>main.js\<close>, on the browser its caller has launched: fixed language,
  theme and viewport, no measurement, a screenshot without a \<^verbatim>\<open>clip\<close> and with
  \<^verbatim>\<open>omitBackground\<close>.
\<close>

definition renderSnippet :: "world \<Rightarrow> string \<Rightarrow> string \<Rightarrow> string \<Rightarrow> event list \<times> error option" where
  \<open>renderSnippet w code difficulty outputPath =
     (case codeToHtml w code (JStr ''javascript'') (JStr ''nord'') of
        Inl e \<Rightarrow> ([], Some e)
      | Inr codeHtml \<Rightarrow>
         (let html = reel_buildHtml (numToString w) codeHtml (Num 1080) (Num 1920) (Num 80)
                       DEFAULTS_background DEFAULTS_font (Num 24) difficulty
          in ([NewPage, SetViewport reel_viewport, SetContent html,
               Screenshot (JStr outputPath) None True, PageClose,
               Log (''  '' @ [CHR 0xE2, CHR 0x9C, CHR 0x93] @ '' Rendered: '' @ outputPath)], None)))\<close>

text \<open>The clip rectangles of the screenshots of a run, in order.\<close>

fun screenshot_clips :: "event list \<Rightarrow> clip option list" where
  "screenshot_clips [] = []"
| "screenshot_clips (Screenshot p c b # evs) = c # screenshot_clips evs"
| "screenshot_clips (ev # evs) = screenshot_clips evs"

text \<open>The screenshots of a run, in order.\<close>

fun is_screenshot :: "event \<Rightarrow> bool" where
  "is_screenshot (Screenshot p c b) = True"
| "is_screenshot ev = False"

definition screenshots :: "event list \<Rightarrow> event list" where
  "screenshots evs = filter is_screenshot evs"

text \<open>
  Events that write nothing to the file system: every event but a created directory and a
  written screenshot.
\<close>

fun silent :: "event \<Rightarrow> bool" where
  "silent (Mkdir d) = False"
| "silent (Screenshot p c b) = False"
| "silent ev = True"

section \<open>The specification's layout estimate\<close>

text \<open>
  The \<^verbatim>\<open>LayoutEstimate\<close> of the specification, in its own words:
  \<^verbatim>\<open>lineHeightPx = fontSizePx * 1.6\<close>,
  \<^verbatim>\<open>codeBlockHeightPx = lineCount * lineHeightPx + 2 * innerPadding\<close> and
  \<^verbatim>\<open>canvasHeightPx = codeBlockHeightPx + chromeBarHeightPx + 2 * canvasPadding + fixedMargin\<close>.
\<close>

definition spec_lineHeightPx :: "real \<Rightarrow> real" where
  "spec_lineHeightPx fontSizePx = fontSizePx * 1.6"

definition spec_codeBlockHeightPx :: "real \<Rightarrow> real \<Rightarrow> real \<Rightarrow> real" where
  "spec_codeBlockHeightPx lines fontSizePx innerPadding =
     lines * spec_lineHeightPx fontSizePx + 2 * innerPadding"

definition spec_canvasHeightPx :: "real \<Rightarrow> real \<Rightarrow> real \<Rightarrow> real \<Rightarrow> real \<Rightarrow> real \<Rightarrow> real" where
  "spec_canvasHeightPx lines fontSizePx innerPadding chromeBarHeightPx canvasPadding fixedMargin =
     spec_codeBlockHeightPx lines fontSizePx innerPadding + chromeBarHeightPx
       + 2 * canvasPadding + fixedMargin"

text \<open>
  The number of newline-delimited lines of a text, and the same three formulas with every
  product and sum rounded to binary64 as the program's numbers are, in the order in which the
  formulas are written.
\<close>

definition spec_lineCount :: "string \<Rightarrow> nat" where
  "spec_lineCount code = count_list code (CHR ''\<newline>'') + 1"

definition spec64_lineHeightPx :: "jsnum \<Rightarrow> jsnum" where
  "spec64_lineHeightPx fontSizePx = jmul fontSizePx (round64 1.6)"

definition spec64_codeBlockHeightPx :: "jsnum \<Rightarrow> jsnum \<Rightarrow> jsnum \<Rightarrow> jsnum" where
  "spec64_codeBlockHeightPx lines fontSizePx innerPadding =
     jadd (jmul lines (spec64_lineHeightPx fontSizePx)) (jmul (Num 2) innerPadding)"

definition spec64_canvasHeightPx :: "jsnum \<Rightarrow> jsnum \<Rightarrow> jsnum \<Rightarrow> jsnum \<Rightarrow> jsnum \<Rightarrow> jsnum \<Rightarrow> jsnum" where
  "spec64_canvasHeightPx lines fontSizePx innerPadding chromeBarHeightPx canvasPadding fixedMargin =
     jadd (jadd (jadd (spec64_codeBlockHeightPx lines fontSizePx innerPadding) chromeBarHeightPx)
       (jmul (Num 2) canvasPadding)) fixedMargin"

section \<open>Notions used to state the properties\<close>

text \<open>The entity of one character, and \<^verbatim>\<open>s.includes(p)\<close>: the text \<open>p\<close> occurs in \<open>s\<close>.\<close>

definition escape_char :: "char \<Rightarrow> string" where
  \<open>escape_char c =
     (if c = CHR ''&'' then ''&amp;''
      else if c = CHR ''<'' then ''&lt;''
      else if c = CHR ''>'' then ''&gt;''
      else if c = CHR 0x22 then ''&quot;''
      else if c = CHR 0x27 then ''&#39;''
      else [c])\<close>

fun includes_str :: "string \<Rightarrow> string \<Rightarrow> bool" where
  "includes_str [] p = (p = [])"
| "includes_str (x # xs) p = (startsWith (x # xs) p \<or> includes_str xs p)"

section \<open>An example environment\<close>

text \<open>
  A small environment on which the programs are run below.  It holds one file,
  \<^verbatim>\<open>example.js\<close>; standard input is a terminal; the highlighter knows two themes and three
  languages and wraps the code in a \<^verbatim>\<open>pre\<close> element; the frame of the overlay document
  (viewport 1080 by 1920) and of every other document is found at a fixed place; every
  directory can be created.  \<open>demo_Number\<close> is \<^verbatim>\<open>Number\<close> on the values the examples
  convert: \<^verbatim>\<open>true\<close>, \<^verbatim>\<open>"720"\<close>, \<^verbatim>\<open>"Infinity"\<close> and words that are no numerals.
  \<open>demo_numToString\<close> prints whole numbers, the only ones the examples insert, and
  \<open>dirname\<close> is right for the paths without a slash that the examples use.
\<close>

definition demo_rect :: rect where
  "demo_rect = \<lparr>rect_x = 64.5, rect_y = 133.25, rect_width = 960, rect_height = 153.6\<rparr>"

definition demo_reel_rect :: rect where
  "demo_reel_rect = \<lparr>rect_x = 80, rect_y = 841.5, rect_width = 920, rect_height = 326.4\<rparr>"

fun demo_Number :: "jsval \<Rightarrow> jsnum" where
  "demo_Number JTrue = Num 1"
| "demo_Number (JStr s) =
     (if s = ''720'' then Num 720 else if s = ''Infinity'' then PosInfinity else NaN)"
| "demo_Number (JArr xs) = NaN"

fun digits :: "nat \<Rightarrow> string" where
  "digits n =
     (if n < 10 then [char_of (48 + n)] else digits (n div 10) @ [char_of (48 + n mod 10)])"

definition demo_numToString :: "jsnum \<Rightarrow> string" where
  "demo_numToString n =
     (case n of
        Num r \<Rightarrow> (if r < 0 then ''-'' else []) @ digits (nat \<lfloor>\<bar>r\<bar>\<rfloor>)
      | NaN \<Rightarrow> ''NaN''
      | PosInfinity \<Rightarrow> ''Infinity''
      | NegInfinity \<Rightarrow> ''-Infinity'')"

definition demo_world :: world where
  \<open>demo_world =
     \<lparr>readFile = (\<lambda>p. if p = JStr ''example.js'' then Inr ''console.log(1+1)''
                       else Inl (Error ''ENOENT: no such file or directory'')),
      stdin_data = None,
      bundledThemes = [''nord'', ''dracula''],
      bundledLanguages = [''javascript'', ''typescript'', ''python''],
      codeToHtml = (\<lambda>code lang theme. Inr (''<pre class="shiki"><code>'' @ code @ ''</code></pre>'')),
      Number_of = demo_Number,
      numToString = demo_numToString,
      measure_frame = (\<lambda>html vp. if vp = reel_viewport then Some demo_reel_rect else Some demo_rect),
      dirname = (\<lambda>p. case p of JStr s \<Rightarrow> Inr ''.''
                     | other \<Rightarrow> Inl (TypeError ''The "path" argument must be of type string'')),
      mkdir = (\<lambda>d. None)\<rparr>\<close>

text \<open>The same environment with a browser in which the frame is never found.\<close>

definition frameless_world :: world where
  "frameless_world = demo_world\<lparr>measure_frame := (\<lambda>html vp. None)\<rparr>"


declare digits.simps [simp del]

declare binade_up.simps [simp del] binade_down.simps [simp del]

section \<open>Binary64 rounding\<close>

text \<open>The definitions that evaluate a rounding at a given number.\<close>

lemmas round64_eval =
  round64_def overflow_def nearest64_def exponent_def binade_up.simps binade_down.simps
  round_half_even_def Let_def

lemma binade_up_bounds:
  "1 \<le> x \<Longrightarrow> 2 powi binade_up x \<le> x \<and> x < 2 powi (binade_up x + 1)"
proof (induction x rule: binade_up.induct)
  case (1 x)
  show ?case
  proof (cases "x < 2")
    case True
    with 1(2) show ?thesis by (simp add: binade_up.simps [of x])
  next
    case False
    then have "1 \<le> x / 2" by simp
    with 1(1) False have ih: "2 powi binade_up (x / 2) \<le> x / 2"
      "x / 2 < 2 powi (binade_up (x / 2) + 1)" by auto
    have e: "binade_up x = binade_up (x / 2) + 1"
      using False by (simp add: binade_up.simps [of x])
    have "(2::real) powi (binade_up (x / 2) + 1) = 2 powi binade_up (x / 2) * 2"
      by (simp add: power_int_add)
    moreover have "(2::real) powi (binade_up (x / 2) + 1 + 1) = 2 powi (binade_up (x / 2) + 1) * 2"
      by (simp add: power_int_add)
    ultimately show ?thesis using ih unfolding e by linarith
  qed
qed

lemma binade_down_bounds:
  "0 < x \<Longrightarrow> x < 1 \<Longrightarrow> 2 powi binade_down x \<le> x \<and> x < 2 powi (binade_down x + 1)"
proof (induction x rule: binade_down.induct)
  case (1 x)
  have e: "binade_down x = binade_down (x * 2) - 1"
    using 1(2,3) by (simp add: binade_down.simps [of x])
  show ?case
  proof (cases "x * 2 < 1")
    case True
    with 1 have ih: "2 powi binade_down (x * 2) \<le> x * 2"
      "x * 2 < 2 powi (binade_down (x * 2) + 1)" by auto
    have "(2::real) powi (binade_down (x * 2) - 1) = 2 powi binade_down (x * 2) / 2"
      by (simp add: power_int_diff)
    moreover have "(2::real) powi (binade_down (x * 2) + 1) = 2 powi (binade_down (x * 2) - 1 + 1) * 2"
      by (simp add: power_int_add)
    ultimately show ?thesis using ih unfolding e by linarith
  next
    case False
    then have "binade_down (x * 2) = 0" by (simp add: binade_down.simps [of "x * 2"])
    with e have "binade_down x = - 1" by simp
    with False 1(3) show ?thesis by simp
  qed
qed

lemma binade_up_nonneg: "0 \<le> binade_up x"
proof (induction x rule: binade_up.induct)
  case (1 x)
  then show ?case by (cases "x < 2") (simp_all add: binade_up.simps [of x])
qed

lemma exponent_minus: "exponent (- x) = exponent x"
  by (simp add: exponent_def)

lemma exponent_ge: "- 1022 \<le> exponent x"
  using binade_up_nonneg [of "\<bar>x\<bar>"] by (simp add: exponent_def)

lemma exponent_upper: "x \<noteq> 0 \<Longrightarrow> \<bar>x\<bar> < 2 powi (exponent x + 1)"
proof (cases "1 \<le> \<bar>x\<bar>")
  case True
  then show ?thesis using binade_up_bounds [of "\<bar>x\<bar>"] by (simp add: exponent_def)
next
  case False
  assume "x \<noteq> 0"
  with False have "\<bar>x\<bar> < 2 powi (binade_down \<bar>x\<bar> + 1)"
    using binade_down_bounds [of "\<bar>x\<bar>"] by simp
  also have "\<dots> \<le> 2 powi (max (binade_down \<bar>x\<bar>) (- 1022) + 1)"
    by (intro power_int_increasing) simp_all
  finally show ?thesis using False by (simp add: exponent_def)
qed

lemma exponent_lower: "x \<noteq> 0 \<Longrightarrow> - 1022 < exponent x \<Longrightarrow> 2 powi exponent x \<le> \<bar>x\<bar>"
proof (cases "1 \<le> \<bar>x\<bar>")
  case True
  then show ?thesis using binade_up_bounds [of "\<bar>x\<bar>"] by (simp add: exponent_def)
next
  case False
  assume "x \<noteq> 0" and "- 1022 < exponent x"
  with False have "exponent x = binade_down \<bar>x\<bar>"
    by (simp add: exponent_def max_def split: if_splits)
  with False \<open>x \<noteq> 0\<close> show ?thesis using binade_down_bounds [of "\<bar>x\<bar>"] by simp
qed

lemma exponent_mono:
  assumes "0 < x" and "x \<le> y"
  shows "exponent x \<le> exponent y"
proof (rule ccontr)
  assume "\<not> exponent x \<le> exponent y"
  then have lt: "exponent y < exponent x" by simp
  then have "- 1022 < exponent x" using exponent_ge [of y] by linarith
  with assms have "2 powi exponent x \<le> x" using exponent_lower [of x] by simp
  also have "x \<le> y" by fact
  also have "y < 2 powi (exponent y + 1)" using assms exponent_upper [of y] by simp
  also have "\<dots> \<le> 2 powi exponent x" using lt by (intro power_int_increasing) simp_all
  finally show False by simp
qed

text \<open>The exponent of a number that lies in a known binade.\<close>

lemma exponent_eqI:
  assumes "2 powi e \<le> \<bar>x\<bar>" and "\<bar>x\<bar> < 2 powi (e + 1)" and "- 1022 \<le> e"
  shows "exponent x = e"
proof -
  have "0 < (2::real) powi e" by simp
  with assms(1) have "0 < \<bar>x\<bar>" by linarith
  then have x: "x \<noteq> 0" by simp
  have "\<not> exponent x < e"
  proof
    assume "exponent x < e"
    then have "(2::real) powi (exponent x + 1) \<le> 2 powi e"
      by (intro power_int_increasing) simp_all
    with exponent_upper [OF x] assms(1) show False by linarith
  qed
  moreover have "\<not> e < exponent x"
  proof
    assume l: "e < exponent x"
    then have "(2::real) powi (e + 1) \<le> 2 powi exponent x"
      by (intro power_int_increasing) simp_all
    moreover have "2 powi exponent x \<le> \<bar>x\<bar>"
      using x l assms(3) by (intro exponent_lower) simp_all
    ultimately show False using assms(2) by linarith
  qed
  ultimately show ?thesis by simp
qed

lemma round_half_even_of_int: "round_half_even (of_int n) = n"
  by (simp add: round_half_even_def)

lemma round_half_even_bounds:
  "\<lfloor>y\<rfloor> \<le> round_half_even y" "round_half_even y \<le> \<lfloor>y\<rfloor> + 1"
  by (simp_all add: round_half_even_def Let_def)

lemma round_half_even_mono:
  assumes "y \<le> z"
  shows "round_half_even y \<le> round_half_even z"
proof (cases "\<lfloor>y\<rfloor> = \<lfloor>z\<rfloor>")
  case True
  then have "y - of_int \<lfloor>y\<rfloor> \<le> z - of_int \<lfloor>z\<rfloor>" using assms by simp
  with True show ?thesis by (auto simp: round_half_even_def Let_def)
next
  case False
  with assms have "\<lfloor>y\<rfloor> < \<lfloor>z\<rfloor>" using floor_mono [of y z] by linarith
  then show ?thesis
    using round_half_even_bounds(2) [of y] round_half_even_bounds(1) [of z] by linarith
qed

lemma round_half_even_minus: "round_half_even (- y) = - round_half_even y"
proof (cases "y = of_int \<lfloor>y\<rfloor>")
  case True
  then obtain n where "y = of_int n" ..
  then have "- y = of_int (- n)" by simp
  then show ?thesis using \<open>y = of_int n\<close> by (simp only: round_half_even_of_int)
next
  case False
  then have f: "\<lfloor>- y\<rfloor> = - \<lfloor>y\<rfloor> - 1" by (simp add: floor_minus ceiling_altdef)
  have g: "- y - of_int (- \<lfloor>y\<rfloor> - 1) = 1 - (y - of_int \<lfloor>y\<rfloor>)" by simp
  show ?thesis
    unfolding round_half_even_def Let_def f g by auto
qed

lemma round_half_even_ge: "of_int n \<le> y \<Longrightarrow> n \<le> round_half_even y"
  using round_half_even_mono [of "of_int n" y] by (simp add: round_half_even_of_int)

lemma round_half_even_le: "y \<le> of_int n \<Longrightarrow> round_half_even y \<le> n"
  using round_half_even_mono [of y "of_int n"] by (simp add: round_half_even_of_int)

lemma nearest64_0: "nearest64 0 = 0"
  by (simp add: nearest64_def round_half_even_def)

lemma nearest64_minus: "nearest64 (- x) = - nearest64 x"
  by (simp add: nearest64_def exponent_minus round_half_even_minus Let_def)

lemma nearest64_nonneg: "0 \<le> x \<Longrightarrow> 0 \<le> nearest64 x"
proof -
  assume "0 \<le> x"
  then have "of_int 0 \<le> x / 2 powi (exponent x - 52)" by simp
  then have "0 \<le> round_half_even (x / 2 powi (exponent x - 52))" by (rule round_half_even_ge)
  then show ?thesis by (simp add: nearest64_def Let_def)
qed

lemma nearest64_upper:
  assumes "0 < x"
  shows "nearest64 x \<le> 2 powi (exponent x + 1)"
proof -
  define u :: real where "u = 2 powi (exponent x - 52)"
  have u: "0 < u" by (simp add: u_def)
  have s: "2 powi (exponent x + 1) = 2 ^ 53 * u"
    unfolding u_def by (simp add: power_int_add power_int_diff)
  have "x < 2 powi (exponent x + 1)" using assms exponent_upper [of x] by simp
  then have "x / u \<le> 2 ^ 53" using u unfolding s by (simp add: field_simps)
  then have "x / u \<le> of_int (2 ^ 53)" by simp
  then have "round_half_even (x / u) \<le> 2 ^ 53" by (rule round_half_even_le)
  then have "of_int (round_half_even (x / u)) \<le> (2 ^ 53 :: real)" by simp
  then have "of_int (round_half_even (x / u)) * u \<le> 2 ^ 53 * u"
    using u by (intro mult_right_mono) simp_all
  then show ?thesis unfolding s by (simp add: nearest64_def Let_def u_def)
qed

lemma nearest64_lower:
  assumes "0 < x" and "- 1022 < exponent x"
  shows "2 powi exponent x \<le> nearest64 x"
proof -
  define u :: real where "u = 2 powi (exponent x - 52)"
  have u: "0 < u" by (simp add: u_def)
  have s: "2 powi exponent x = 2 ^ 52 * u"
    unfolding u_def by (simp add: power_int_diff)
  have "2 powi exponent x \<le> x" using assms exponent_lower [of x] by simp
  then have "2 ^ 52 \<le> x / u" using u unfolding s by (simp add: field_simps)
  then have "of_int (2 ^ 52) \<le> x / u" by simp
  then have "2 ^ 52 \<le> round_half_even (x / u)" by (rule round_half_even_ge)
  then have "(2 ^ 52 :: real) \<le> of_int (round_half_even (x / u))" by simp
  then have "2 ^ 52 * u \<le> of_int (round_half_even (x / u)) * u"
    using u by (intro mult_right_mono) simp_all
  then show ?thesis unfolding s by (simp add: nearest64_def Let_def u_def)
qed

lemma nearest64_mono_pos:
  assumes "0 < x" and "x \<le> y"
  shows "nearest64 x \<le> nearest64 y"
proof (cases "exponent x = exponent y")
  case True
  define u :: real where "u = 2 powi (exponent y - 52)"
  have u: "0 < u" by (simp add: u_def)
  then have "x / u \<le> y / u" using assms by (simp add: divide_right_mono)
  then have "round_half_even (x / u) \<le> round_half_even (y / u)" by (rule round_half_even_mono)
  then have "(of_int (round_half_even (x / u)) :: real) \<le> of_int (round_half_even (y / u))"
    by simp
  then have "of_int (round_half_even (x / u)) * u \<le> of_int (round_half_even (y / u)) * u"
    using u by (intro mult_right_mono) simp_all
  then show ?thesis by (simp add: nearest64_def Let_def True u_def)
next
  case False
  with assms have lt: "exponent x < exponent y" using exponent_mono [of x y] by simp
  then have "- 1022 < exponent y" using exponent_ge [of x] by linarith
  have "nearest64 x \<le> 2 powi (exponent x + 1)" using assms by (intro nearest64_upper)
  also have "\<dots> \<le> 2 powi exponent y" using lt by (intro power_int_increasing) simp_all
  also have "\<dots> \<le> nearest64 y"
    using assms \<open>- 1022 < exponent y\<close> by (intro nearest64_lower) simp_all
  finally show ?thesis .
qed

text \<open>Rounding keeps the order of the numbers, also across an overflow.\<close>

lemma nearest64_mono:
  assumes "x \<le> y"
  shows "nearest64 x \<le> nearest64 y"
proof -
  consider "0 < x" | "x \<le> 0" "0 \<le> y" | "y < 0" by linarith
  then show ?thesis
  proof cases
    case 1
    then show ?thesis using assms by (rule nearest64_mono_pos)
  next
    case 2
    then have "0 \<le> nearest64 (- x)" "0 \<le> nearest64 y" by (simp_all add: nearest64_nonneg)
    then show ?thesis by (simp add: nearest64_minus)
  next
    case 3
    with assms have "nearest64 (- y) \<le> nearest64 (- x)" by (intro nearest64_mono_pos) simp_all
    then show ?thesis by (simp add: nearest64_minus)
  qed
qed

lemma overflow_mono: "r \<le> r' \<Longrightarrow> jle (overflow r) (overflow r')"
  by (simp add: overflow_def)

lemma round64_mono: "x \<le> y \<Longrightarrow> jle (round64 x) (round64 y)"
  by (simp add: round64_def overflow_mono nearest64_mono)

lemma round64_0: "round64 0 = Num 0"
  by (simp add: round64_def nearest64_0 overflow_def)

lemma round64_not_NaN: "round64 x \<noteq> NaN"
  by (simp add: round64_def overflow_def)

lemma round64_minus: "round64 (- x) = jneg (round64 x)"
  by (simp add: round64_def nearest64_minus overflow_def)

text \<open>A product or sum of at least \<open>2 ^ 1024\<close> overflows.\<close>

lemma round64_overflow:
  assumes "2 ^ 1024 \<le> x"
  shows "round64 x = PosInfinity"
proof -
  have "0 < (2::real) ^ 1024" by simp
  with assms have x: "0 < x" by linarith
  have "exponent (2 ^ 1024 :: real) = 1024"
    by (rule exponent_eqI) (simp_all add: power_int_add)
  with assms have e: "1024 \<le> exponent x"
    using exponent_mono [of "2 ^ 1024" x] by simp
  have "(2::real) ^ 1024 = 2 powi 1024" by simp
  also have "\<dots> \<le> 2 powi exponent x" using e by (intro power_int_increasing) simp_all
  also have "\<dots> \<le> nearest64 x" using x e by (intro nearest64_lower) simp_all
  finally show ?thesis by (simp add: round64_def overflow_def)
qed

section \<open>Order of the results of sums and products\<close>

lemma jle_refl: "a \<noteq> NaN \<Longrightarrow> jle a a"
  by (cases a) simp_all

lemma jle_trans: "jle a b \<Longrightarrow> jle b c \<Longrightarrow> jle a c"
  by (cases a; cases b; cases c) simp_all

lemma jle_round64_top: "jle (round64 x) PosInfinity"
  by (simp add: round64_def overflow_def)

lemma jle_round64_bot: "jle NegInfinity (round64 x)"
  by (simp add: round64_def overflow_def)

lemma round64_nonneg: "0 \<le> x \<Longrightarrow> jle (Num 0) (round64 x)"
  using round64_mono [of 0 x] by (simp add: round64_0)

lemma jadd_mono:
  assumes "jle (Num 0) a" and "jle a a'" and "jle (Num 0) b" and "jle b b'"
  shows "jle (jadd a b) (jadd a' b')"
  using assms
  by (cases a; cases a'; cases b; cases b') (simp_all add: round64_mono jle_round64_top)

lemma jadd_nonneg:
  assumes "jle (Num 0) a" and "jle (Num 0) b"
  shows "jle (Num 0) (jadd a b)"
  using jadd_mono [of "Num 0" a "Num 0" b] assms by (simp add: round64_0)

lemma jmul_mono_right:
  assumes "0 < c" and "jle b b'"
  shows "jle (jmul (Num c) b) (jmul (Num c) b')"
  using assms
  by (cases b; cases b')
     (simp_all add: round64_mono jle_round64_top jle_round64_bot inf_times_def mult_left_mono)

lemma jmul_mono_left:
  assumes "0 < a" and "a \<le> a'" and "jle (Num 0) b"
  shows "jle (jmul (Num a) b) (jmul (Num a') b)"
  using assms
  by (cases b) (simp_all add: round64_mono inf_times_def mult_right_mono)

lemma jmul_nonneg:
  assumes "0 < c" and "jle (Num 0) b"
  shows "jle (Num 0) (jmul (Num c) b)"
  using jmul_mono_right [of c "Num 0" b] assms by (simp add: round64_0)

lemma jmul_commute: "jmul a b = jmul b a"
  by (cases a; cases b) (simp_all add: mult.commute)

lemma Math_ceil_mono: "jle a b \<Longrightarrow> jle (Math_ceil a) (Math_ceil b)"
  by (cases a; cases b) (simp_all add: ceiling_mono)


section \<open>Numbers and the height estimate\<close>

lemma isFinite_iff: "isFinite x \<longleftrightarrow> (\<exists>r. x = Num r)"
  by (cases x) simp_all




lemma split_newline_nonempty: "split_newline s \<noteq> []"
  by (induction s) (auto split: list.split)

lemma length_split_newline: "length (split_newline s) = count_list s (CHR ''\<newline>'') + 1"
proof (induction s)
  case Nil
  show ?case by simp
next
  case (Cons c cs)
  obtain l ls where "split_newline cs = l # ls"
    using split_newline_nonempty [of cs] by (cases "split_newline cs") auto
  with Cons show ?case by auto
qed

lemma lineCount_eq: "lineCount code = spec_lineCount code"
  by (simp add: lineCount_def spec_lineCount_def length_split_newline)

lemma lineCount_pos: "0 < real (lineCount code)"
  by (simp add: lineCount_eq spec_lineCount_def)

lemma count_list_replicate: "count_list (replicate n c) c = n"
  by (induction n) simp_all

lemma lineCount_replicate: "lineCount (replicate n (CHR ''\<newline>'')) = n + 1"
  by (simp add: lineCount_eq spec_lineCount_def count_list_replicate)

lemma lineCount_examples:
  "lineCount [] = 1" "lineCount ''a'' = 1" "lineCount ''a\<newline>'' = 2" "lineCount ''a\<newline>b'' = 2"
  "lineCount ''console.log(1+1)'' = 1"
  by (simp_all add: lineCount_def)

text \<open>The estimate of \<^verbatim>\<open>main\<close> with the body of \<^verbatim>\<open>estimateHeight\<close> written out.\<close>

lemma estimatedHeight_unfold:
  "estimatedHeight code f p =
     Math_ceil (jadd (jadd (jadd (jadd (jmul (Num (real (lineCount code))) (jmul f (round64 1.6)))
       (jmul (Num 24) (Num 2))) (Num 40)) (jmul p (Num 2))) (Num 40))"
  by (simp add: estimatedHeight_def estimateHeight_def)

text \<open>The same for a given number of lines, in a form that evaluates.\<close>

lemma estimatedHeight_lines:
  "lineCount code = n \<Longrightarrow>
   estimatedHeight code f p =
     Math_ceil (jadd (jadd (jadd (jadd (jmul (Num (real n)) (jmul f (round64 1.6)))
       (jmul (Num 24) (Num 2))) (Num 40)) (jmul p (Num 2))) (Num 40))"
  by (simp add: estimatedHeight_unfold)

lemma literal_1_6: "round64 1.6 = Num (3602879701896397 / 2251799813685248)"
  by (simp add: round64_eval)

lemma code_padding_twice: "jmul (Num 24) (Num 2) = Num 48"
  by (simp add: round64_eval)

text \<open>Estimates at given sizes.\<close>

lemma estimate_one_line: "lineCount code = 1 \<Longrightarrow> estimatedHeight code (Num 16) (Num 64) = Num 282"
  by (simp add: estimatedHeight_lines [of code 1] round64_eval)

lemma estimate_two_lines: "lineCount code = 2 \<Longrightarrow> estimatedHeight code (Num 16) (Num 64) = Num 308"
  by (simp add: estimatedHeight_lines [of code 2] round64_eval)

lemma estimate_thirty_lines:
  "lineCount code = 30 \<Longrightarrow> estimatedHeight code (Num 12) (Num 64) = Num 833"
  by (simp add: estimatedHeight_lines [of code 30] round64_eval)




text \<open>A padding or a font size that overflows.\<close>

lemma padding_overflow: "jmul (Num (2 ^ 1023)) (Num 2) = PosInfinity"
  by (simp add: round64_overflow)

lemma font_overflow: "jmul (Num (- (3 * 2 ^ 1022))) (round64 1.6) = NegInfinity"
proof -
  have "(2::real) ^ 1024 = 4 * 2 ^ 1022" by simp
  also have "\<dots> \<le> 3 * 2 ^ 1022 * (3602879701896397 / 2251799813685248)" by simp
  finally have "round64 (3 * 2 ^ 1022 * (3602879701896397 / 2251799813685248)) = PosInfinity"
    by (rule round64_overflow)
  then have "round64 (- (3 * 2 ^ 1022 * (3602879701896397 / 2251799813685248))) = NegInfinity"
    by (simp only: round64_minus jneg.simps)
  then show ?thesis by (simp only: literal_1_6 jmul.simps mult_minus_left)
qed

lemma estimate_padding_overflow:
  "lineCount code = 1 \<Longrightarrow> estimatedHeight code (Num 16) (Num (2 ^ 1023)) = PosInfinity"
  unfolding estimatedHeight_unfold padding_overflow by (simp add: round64_eval)

lemma estimate_font_overflow:
  "lineCount code = 1 \<Longrightarrow>
   estimatedHeight code (Num (- (3 * 2 ^ 1022))) (Num (2 ^ 1023)) = NaN"
  unfolding estimatedHeight_unfold padding_overflow font_overflow code_padding_twice
  by (simp add: inf_times_def)

text \<open>
  The estimate as a function of the height of the code lines: it does not decrease when that
  height grows, for a padding that is not negative or whose double is finite.
\<close>

lemma estimate_tail_mono:
  assumes "jle (Num 0) m" and "jle m m'" and "0 \<le> p"
  shows "jle (Math_ceil (jadd (jadd (jadd (jadd m (jmul (Num 24) (Num 2))) (Num 40))
                (jmul (Num p) (Num 2))) (Num 40)))
             (Math_ceil (jadd (jadd (jadd (jadd m' (jmul (Num 24) (Num 2))) (Num 40))
                (jmul (Num p) (Num 2))) (Num 40)))"
proof -
  have q0: "jle (Num 0) (jmul (Num p) (Num 2))" using assms(3) by (simp add: round64_nonneg)
  have qq: "jle (jmul (Num p) (Num 2)) (jmul (Num p) (Num 2))"
    by (simp add: jle_refl round64_not_NaN)
  have 1: "jle (jadd m (Num 48)) (jadd m' (Num 48))"
    by (rule jadd_mono [OF assms(1,2)]) simp_all
  have n1: "jle (Num 0) (jadd m (Num 48))" by (rule jadd_nonneg [OF assms(1)]) simp
  have 2: "jle (jadd (jadd m (Num 48)) (Num 40)) (jadd (jadd m' (Num 48)) (Num 40))"
    by (rule jadd_mono [OF n1 1]) simp_all
  have n2: "jle (Num 0) (jadd (jadd m (Num 48)) (Num 40))"
    by (rule jadd_nonneg [OF n1]) simp
  have 3: "jle (jadd (jadd (jadd m (Num 48)) (Num 40)) (jmul (Num p) (Num 2)))
               (jadd (jadd (jadd m' (Num 48)) (Num 40)) (jmul (Num p) (Num 2)))"
    by (rule jadd_mono [OF n2 2 q0 qq])
  have n3: "jle (Num 0) (jadd (jadd (jadd m (Num 48)) (Num 40)) (jmul (Num p) (Num 2)))"
    by (rule jadd_nonneg [OF n2 q0])
  have 4: "jle (jadd (jadd (jadd (jadd m (Num 48)) (Num 40)) (jmul (Num p) (Num 2))) (Num 40))
               (jadd (jadd (jadd (jadd m' (Num 48)) (Num 40)) (jmul (Num p) (Num 2))) (Num 40))"
    by (rule jadd_mono [OF n3 3]) simp_all
  show ?thesis unfolding code_padding_twice using 4 by (rule Math_ceil_mono)
qed

lemma jadd_mono_finite: "jle a a' \<Longrightarrow> jle (jadd a (Num k)) (jadd a' (Num k))"
  by (cases a; cases a') (simp_all add: round64_mono jle_round64_top jle_round64_bot)

lemma estimate_tail_mono_finite:
  assumes "jle m m'" and "jmul (Num p) (Num 2) = Num q"
  shows "jle (Math_ceil (jadd (jadd (jadd (jadd m (jmul (Num 24) (Num 2))) (Num 40))
                (jmul (Num p) (Num 2))) (Num 40)))
             (Math_ceil (jadd (jadd (jadd (jadd m' (jmul (Num 24) (Num 2))) (Num 40))
                (jmul (Num p) (Num 2))) (Num 40)))"
  unfolding code_padding_twice assms(2)
  by (intro Math_ceil_mono jadd_mono_finite assms(1))

lemma lineHeight_nonneg: "0 \<le> f \<Longrightarrow> jle (Num 0) (jmul (Num f) (round64 1.6))"
  unfolding literal_1_6 by (simp add: round64_nonneg)

lemma lineHeight_mono: "f1 \<le> f2 \<Longrightarrow> jle (jmul (Num f1) (round64 1.6)) (jmul (Num f2) (round64 1.6))"
  unfolding literal_1_6 by (simp add: round64_mono)

lemma estimate_mono_lines:
  assumes "lineCount c1 \<le> lineCount c2" and "0 \<le> f" and "0 \<le> p"
  shows "jle (estimatedHeight c1 (Num f) (Num p)) (estimatedHeight c2 (Num f) (Num p))"
  unfolding estimatedHeight_unfold
proof (rule estimate_tail_mono)
  show "jle (Num 0) (jmul (Num (real (lineCount c1))) (jmul (Num f) (round64 1.6)))"
    using lineCount_pos lineHeight_nonneg [OF assms(2)] by (rule jmul_nonneg)
  show "jle (jmul (Num (real (lineCount c1))) (jmul (Num f) (round64 1.6)))
            (jmul (Num (real (lineCount c2))) (jmul (Num f) (round64 1.6)))"
    using lineCount_pos _ lineHeight_nonneg [OF assms(2)]
    by (rule jmul_mono_left) (simp add: assms(1))
  show "0 \<le> p" by fact
qed

lemma estimate_mono_font_nonneg:
  assumes "0 \<le> f1" and "f1 \<le> f2" and "0 \<le> p"
  shows "jle (estimatedHeight c (Num f1) (Num p)) (estimatedHeight c (Num f2) (Num p))"
  unfolding estimatedHeight_unfold
proof (rule estimate_tail_mono)
  show "jle (Num 0) (jmul (Num (real (lineCount c))) (jmul (Num f1) (round64 1.6)))"
    using lineCount_pos lineHeight_nonneg [OF assms(1)] by (rule jmul_nonneg)
  show "jle (jmul (Num (real (lineCount c))) (jmul (Num f1) (round64 1.6)))
            (jmul (Num (real (lineCount c))) (jmul (Num f2) (round64 1.6)))"
    using lineCount_pos lineHeight_mono [OF assms(2)] by (rule jmul_mono_right)
  show "0 \<le> p" by fact
qed

lemma estimate_mono_font_finite:
  assumes "f1 \<le> f2" and "isFinite (jmul (Num p) (Num 2))"
  shows "jle (estimatedHeight c (Num f1) (Num p)) (estimatedHeight c (Num f2) (Num p))"
proof -
  from assms(2) obtain q where q: "jmul (Num p) (Num 2) = Num q"
    unfolding isFinite_iff ..
  have "jle (jmul (Num (real (lineCount c))) (jmul (Num f1) (round64 1.6)))
            (jmul (Num (real (lineCount c))) (jmul (Num f2) (round64 1.6)))"
    using lineCount_pos lineHeight_mono [OF assms(1)] by (rule jmul_mono_right)
  then show ?thesis unfolding estimatedHeight_unfold using q by (rule estimate_tail_mono_finite)
qed



section \<open>The rounding error of the estimate\<close>

lemma round_half_even_error: "\<bar>of_int (round_half_even y) - y\<bar> \<le> 1 / 2"
proof -
  have "of_int \<lfloor>y\<rfloor> \<le> y" "y < of_int \<lfloor>y\<rfloor> + 1" by linarith+
  then show ?thesis by (auto simp: round_half_even_def Let_def)
qed

lemma nearest64_error: "\<bar>nearest64 x - x\<bar> \<le> 2 powi (exponent x - 53)"
proof -
  define u :: real where "u = 2 powi (exponent x - 52)"
  have u: "0 < u" by (simp add: u_def)
  have h: "2 powi (exponent x - 53) = u / 2"
    unfolding u_def by (simp add: power_int_diff)
  have "nearest64 x - x = (of_int (round_half_even (x / u)) - x / u) * u"
    using u by (simp add: nearest64_def Let_def u_def field_simps)
  then have "\<bar>nearest64 x - x\<bar> = \<bar>of_int (round_half_even (x / u)) - x / u\<bar> * u"
    using u by (simp add: abs_mult)
  also have "\<dots> \<le> 1 / 2 * u"
    using u round_half_even_error [of "x / u"] by (intro mult_right_mono) simp_all
  finally show ?thesis unfolding h by simp
qed

lemma exponent_less:
  assumes "0 \<le> x" and "x < 2 ^ k" and "1 \<le> k"
  shows "exponent x < int k"
proof (cases "x = 0")
  case True
  then show ?thesis using assms(3) by (simp add: exponent_def binade_down.simps)
next
  case False
  show ?thesis
  proof (rule ccontr)
    assume "\<not> exponent x < int k"
    then have k: "int k \<le> exponent x" by simp
    then have "- 1022 < exponent x" by linarith
    with False have "2 powi exponent x \<le> \<bar>x\<bar>" by (rule exponent_lower)
    moreover have "(2::real) powi int k \<le> 2 powi exponent x"
      using k by (intro power_int_increasing) simp_all
    ultimately show False using assms(1,2) by simp
  qed
qed

text \<open>
  A number that is not negative and below \<open>2 ^ k\<close> is rounded to a finite double in the
  same range, at a distance of at most \<open>2 ^ k / 2 ^ 54\<close>.
\<close>

lemma round64_close:
  assumes "0 \<le> x" and "x < 2 ^ k" and "1 \<le> k" and "k \<le> 1023"
  obtains y where "round64 x = Num y" and "\<bar>y - x\<bar> \<le> 2 ^ k / 2 ^ 54" and "0 \<le> y" and "y \<le> 2 ^ k"
proof
  have e: "exponent x < int k" using assms(1-3) by (rule exponent_less)
  show n: "0 \<le> nearest64 x" using assms(1) by (rule nearest64_nonneg)
  show le: "nearest64 x \<le> 2 ^ k"
  proof (cases "x = 0")
    case True
    then show ?thesis by (simp add: nearest64_0)
  next
    case False
    with assms(1) have "0 < x" by simp
    then have "nearest64 x \<le> 2 powi (exponent x + 1)" by (rule nearest64_upper)
    also have "\<dots> \<le> 2 powi int k" using e by (intro power_int_increasing) simp_all
    finally show ?thesis by simp
  qed
  have "\<bar>nearest64 x - x\<bar> \<le> 2 powi (exponent x - 53)" by (rule nearest64_error)
  also have "\<dots> \<le> 2 powi (int k - 54)" using e by (intro power_int_increasing) simp_all
  also have "\<dots> = 2 ^ k / 2 ^ 54" by (simp add: power_int_diff)
  finally show "\<bar>nearest64 x - x\<bar> \<le> 2 ^ k / 2 ^ 54" .
  have "(2::real) ^ k \<le> 2 ^ 1023" using assms(4) by (intro power_increasing) simp_all
  also have "\<dots> < 2 ^ 1024" by simp
  finally have "nearest64 x < 2 ^ 1024" using le by simp
  moreover have "- (2 ^ 1024) < nearest64 x"
  proof -
    have "- (2 ^ 1024) < (0::real)" by simp
    with n show ?thesis by linarith
  qed
  ultimately show "round64 x = Num (nearest64 x)" by (simp add: round64_def overflow_def)
qed


lemma error_sum:
  fixes A B C P m q s1 s2 s3 s4 :: real
  assumes "\<bar>A - B\<bar> \<le> 1 / 8192" and "\<bar>B - C\<bar> \<le> 1 / 4096" and "\<bar>m - A\<bar> \<le> 1 / 4096"
    and "\<bar>s1 - (m + 48)\<bar> \<le> 1 / 2048" and "\<bar>s2 - (s1 + 40)\<bar> \<le> 1 / 1024"
    and "\<bar>q - P\<bar> \<le> 1 / 4294967296" and "\<bar>s3 - (s2 + q)\<bar> \<le> 1 / 512"
    and "\<bar>s4 - (s3 + 40)\<bar> \<le> 1 / 256"
  shows "\<bar>s4 - (C + 48 + 40 + P + 40)\<bar> \<le> 1 / 64"
proof -
  have 1: "\<bar>m - C\<bar> \<le> 1 / 1024" using assms(1-3) by linarith
  have 2: "\<bar>s2 - (C + 48 + 40)\<bar> \<le> 1 / 256" using 1 assms(4,5) by linarith
  have 3: "\<bar>s3 - (C + 48 + 40 + P)\<bar> \<le> 1 / 128" using 2 assms(6,7) by linarith
  show ?thesis using 3 assms(8) by linarith
qed

text \<open>
  For sizes up to \<open>2 ^ 20\<close> the sum that \<^verbatim>\<open>estimateHeight\<close> rounds up is finite and within
  \<open>1 / 64\<close> of the exact value of the specification's formula.
\<close>

lemma estimate_close:
  assumes "0 \<le> f" and "f \<le> 2 ^ 20" and "0 \<le> p" and "p \<le> 2 ^ 20" and "lineCount code \<le> 2 ^ 20"
  obtains t where "estimatedHeight code (Num f) (Num p) = Num (of_int \<lceil>t\<rceil>)"
    and "\<bar>t - spec_canvasHeightPx (real (lineCount code)) f 24 40 p 40\<bar> \<le> 1 / 64"
proof -
  define c :: real where "c = 3602879701896397 / 2251799813685248"
  define L where "L = real (lineCount code)"
  define r :: real where "r = 16 / 10"
  have "real (lineCount code) \<le> real (2 ^ 20)" using assms(5) by (rule of_nat_mono)
  then have L: "0 \<le> L" "L \<le> 2 ^ 20" unfolding L_def by simp_all
  have c: "0 \<le> c" "c \<le> 17 / 10" "\<bar>c - r\<bar> \<le> 1 / 2 ^ 52"
    by (simp_all add: c_def r_def)
  have x1: "0 \<le> f * c" "f * c < 2 ^ 21"
  proof -
    show "0 \<le> f * c" using assms(1) c(1) by simp
    have "f * c \<le> 2 ^ 20 * (17 / 10)" using assms(1,2) c(1,2) by (intro mult_mono) simp_all
    then show "f * c < 2 ^ 21" by simp
  qed
  obtain lh where lh: "round64 (f * c) = Num lh" "\<bar>lh - f * c\<bar> \<le> 2 ^ 21 / 2 ^ 54"
    "0 \<le> lh" "lh \<le> 2 ^ 21"
    using x1 by (rule round64_close) simp_all
  have x2: "0 \<le> L * lh" "L * lh < 2 ^ 42"
  proof -
    show "0 \<le> L * lh" using L(1) lh(3) by simp
    have "L * lh \<le> 2 ^ 20 * 2 ^ 21" using L lh(3,4) by (intro mult_mono) simp_all
    then show "L * lh < 2 ^ 42" by simp
  qed
  obtain m where m: "round64 (L * lh) = Num m" "\<bar>m - L * lh\<bar> \<le> 2 ^ 42 / 2 ^ 54"
    "0 \<le> m" "m \<le> 2 ^ 42"
    using x2 by (rule round64_close) simp_all
  have x3: "0 \<le> m + 48" "m + 48 < 2 ^ 43" using m(3,4) by simp_all
  obtain s1 where s1: "round64 (m + 48) = Num s1" "\<bar>s1 - (m + 48)\<bar> \<le> 2 ^ 43 / 2 ^ 54"
    "0 \<le> s1" "s1 \<le> 2 ^ 43"
    using x3 by (rule round64_close) simp_all
  have x4: "0 \<le> s1 + 40" "s1 + 40 < 2 ^ 44" using s1(3,4) by simp_all
  obtain s2 where s2: "round64 (s1 + 40) = Num s2" "\<bar>s2 - (s1 + 40)\<bar> \<le> 2 ^ 44 / 2 ^ 54"
    "0 \<le> s2" "s2 \<le> 2 ^ 44"
    using x4 by (rule round64_close) simp_all
  have xq: "0 \<le> p * 2" "p * 2 < 2 ^ 22" using assms(3,4) by simp_all
  obtain q where q: "round64 (p * 2) = Num q" "\<bar>q - p * 2\<bar> \<le> 2 ^ 22 / 2 ^ 54"
    "0 \<le> q" "q \<le> 2 ^ 22"
    using xq by (rule round64_close) simp_all
  have x5: "0 \<le> s2 + q" "s2 + q < 2 ^ 45" using s2(3,4) q(3,4) by simp_all
  obtain s3 where s3: "round64 (s2 + q) = Num s3" "\<bar>s3 - (s2 + q)\<bar> \<le> 2 ^ 45 / 2 ^ 54"
    "0 \<le> s3" "s3 \<le> 2 ^ 45"
    using x5 by (rule round64_close) simp_all
  have x6: "0 \<le> s3 + 40" "s3 + 40 < 2 ^ 46" using s3(3,4) by simp_all
  obtain s4 where s4: "round64 (s3 + 40) = Num s4" "\<bar>s4 - (s3 + 40)\<bar> \<le> 2 ^ 46 / 2 ^ 54"
    "0 \<le> s4" "s4 \<le> 2 ^ 46"
    using x6 by (rule round64_close) simp_all
  have est: "estimatedHeight code (Num f) (Num p) = Num (of_int \<lceil>s4\<rceil>)"
    unfolding estimatedHeight_unfold literal_1_6 code_padding_twice
    by (simp only: jmul.simps jadd.simps Math_ceil.simps
        lh(1) [unfolded c_def] m(1) [unfolded L_def] s1(1) s2(1) q(1) s3(1) s4(1))
  have d1: "\<bar>L * lh - L * (f * c)\<bar> \<le> 2 ^ 20 * (2 ^ 21 / 2 ^ 54)"
  proof -
    have "\<bar>L * lh - L * (f * c)\<bar> = L * \<bar>lh - f * c\<bar>"
      using L(1) by (simp add: abs_mult right_diff_distrib [symmetric])
    also have "\<dots> \<le> 2 ^ 20 * (2 ^ 21 / 2 ^ 54)"
      using L lh(2) by (intro mult_mono) simp_all
    finally show ?thesis .
  qed
  have d2: "\<bar>L * (f * c) - L * (f * r)\<bar> \<le> 2 ^ 20 * (2 ^ 20 * (1 / 2 ^ 52))"
  proof -
    have "\<bar>L * (f * c) - L * (f * r)\<bar> = L * (f * \<bar>c - r\<bar>)"
      using L(1) assms(1) by (simp add: abs_mult right_diff_distrib [symmetric])
    also have "\<dots> \<le> 2 ^ 20 * (2 ^ 20 * (1 / 2 ^ 52))"
      using L assms(1,2) c(3) by (intro mult_mono) simp_all
    finally show ?thesis .
  qed
  have "\<bar>s4 - (L * (f * r) + 48 + 40 + p * 2 + 40)\<bar> \<le> 1 / 64"
    using d1 d2 m(2) s1(2) s2(2) q(2) s3(2) s4(2) by (intro error_sum) simp_all
  then have "\<bar>s4 - spec_canvasHeightPx (real (lineCount code)) f 24 40 p 40\<bar> \<le> 1 / 64"
    by (simp add: spec_canvasHeightPx_def spec_codeBlockHeightPx_def spec_lineHeightPx_def L_def
        r_def algebra_simps)
  with est show ?thesis by (rule that)
qed


text \<open>Hence the estimate is at most one away from the rounded-up exact value.\<close>

lemma estimate_near_exact:
  assumes "0 \<le> f" and "f \<le> 2 ^ 20" and "0 \<le> p" and "p \<le> 2 ^ 20" and "lineCount code \<le> 2 ^ 20"
  shows "\<exists>e. estimatedHeight code (Num f) (Num p) = Num (of_int e) \<and>
    \<bar>e - \<lceil>spec_canvasHeightPx (real (lineCount code)) f 24 40 p 40\<rceil>\<bar> \<le> 1"
proof -
  define x where "x = spec_canvasHeightPx (real (lineCount code)) f 24 40 p 40"
  obtain t where t: "estimatedHeight code (Num f) (Num p) = Num (of_int \<lceil>t\<rceil>)"
    and d: "\<bar>t - x\<bar> \<le> 1 / 64"
    unfolding x_def using assms by (rule estimate_close)
  have "t \<le> x + 1" using d by linarith
  then have "\<lceil>t\<rceil> \<le> \<lceil>x + 1\<rceil>" by (rule ceiling_mono)
  then have u: "\<lceil>t\<rceil> \<le> \<lceil>x\<rceil> + 1" by simp
  have "x - 1 \<le> t" using d by linarith
  then have "\<lceil>x - 1\<rceil> \<le> \<lceil>t\<rceil>" by (rule ceiling_mono)
  then have l: "\<lceil>x\<rceil> - 1 \<le> \<lceil>t\<rceil>" by simp
  from u l have "\<bar>\<lceil>t\<rceil> - \<lceil>x\<rceil>\<bar> \<le> 1" by linarith
  with t show ?thesis unfolding x_def by blast
qed



section \<open>The claims about the height estimate\<close>

text \<open>
  Claim C5 does not hold as stated.  The estimate is computed in binary64 arithmetic, and the
  product of 12 and the literal \<^verbatim>\<open>1.6\<close> is the double just above 19.2.  For a code of 30 lines
  at \<^verbatim>\<open>--font-size 12\<close> and the default padding of 64, the formula of the specification
  gives exactly 832, and the program computes 833.
\<close>

theorem estimate_differs_from_exact_formula:
  "spec_lineCount (replicate 29 (CHR ''\<newline>'')) = 30 \<and>
   \<lceil>spec_canvasHeightPx 30 12 24 40 64 40\<rceil> = 832 \<and>
   estimatedHeight (replicate 29 (CHR ''\<newline>'')) (Num 12) (Num 64) = Num 833 \<and>
   estimatedHeight (replicate 29 (CHR ''\<newline>'')) (Num 12) (Num 64) \<noteq>
     Num (of_int \<lceil>spec_canvasHeightPx
       (real (spec_lineCount (replicate 29 (CHR ''\<newline>'')))) 12 24 40 64 40\<rceil>)"
proof -
  have n: "spec_lineCount (replicate 29 (CHR ''\<newline>'')) = 30"
    by (simp add: spec_lineCount_def count_list_replicate)
  have s: "\<lceil>spec_canvasHeightPx 30 12 24 40 64 40\<rceil> = 832"
    by (simp add: spec_canvasHeightPx_def spec_codeBlockHeightPx_def spec_lineHeightPx_def)
  have e: "estimatedHeight (replicate 29 (CHR ''\<newline>'')) (Num 12) (Num 64) = Num 833"
    by (rule estimate_thirty_lines) (simp add: lineCount_replicate)
  show ?thesis unfolding n e using s by simp
qed

text \<open>
  Claim C5, amended.  For every code string and all options, the height estimate that \<^verbatim>\<open>main\<close>
  computes is the specification's \<^verbatim>\<open>canvasHeightPx\<close> evaluated in binary64 arithmetic (each
  product and sum rounded to the nearest double, overflowing to an infinity, in the order in
  which the formula is written), then rounded up: for a line count of the number of newline
  characters of the code plus one, the font size and the canvas padding read from the options,
  an inner padding of 24, a chrome bar of 40 and a fixed margin of 40.  The height of the
  viewport is the larger of this estimate and 480.  When the font size and the padding lie
  between 0 and \<open>2 ^ 20\<close> and the code has at most \<open>2 ^ 20\<close> lines, the estimate is a whole
  number at most one away from the exact value of the formula rounded up.
\<close>

theorem estimate_is_rounded_layout_formula:
  "estimatedHeight code fontSize padding =
     Math_ceil (spec64_canvasHeightPx (Num (real (spec_lineCount code))) fontSize (Num 24) (Num 40)
       padding (Num 40)) \<and>
   vp_height (session_viewport (read_settings w opts) code) =
     Math_max (Math_ceil (spec64_canvasHeightPx (Num (real (spec_lineCount code)))
         (s_fontSize (read_settings w opts)) (Num 24) (Num 40)
         (s_padding (read_settings w opts)) (Num 40)))
       (Num 480) \<and>
   (0 \<le> f \<and> f \<le> 2 ^ 20 \<and> 0 \<le> p \<and> p \<le> 2 ^ 20 \<and> spec_lineCount code \<le> 2 ^ 20 \<longrightarrow>
      (\<exists>e. estimatedHeight code (Num f) (Num p) = Num (of_int e) \<and>
         \<bar>e - \<lceil>spec_canvasHeightPx (real (spec_lineCount code)) f 24 40 p 40\<rceil>\<bar> \<le> 1))"
proof -
  have "estimatedHeight code f p =
     Math_ceil (spec64_canvasHeightPx (Num (real (spec_lineCount code))) f (Num 24) (Num 40)
       p (Num 40))" for f p
    unfolding estimatedHeight_unfold lineCount_eq spec64_canvasHeightPx_def
      spec64_codeBlockHeightPx_def spec64_lineHeightPx_def jmul_commute [of "Num 2"]
    by (rule refl)
  then show ?thesis
    using estimate_near_exact [of f p code] by (simp add: session_viewport_def lineCount_eq)
qed

text \<open>
  Thirty lines at the font size 12 and the padding 64: the program computes 833, one more
  than the exact value 832; the viewport is 833 pixels high.
\<close>

theorem estimate_is_rounded_layout_formula_witness:
  "(0::real) \<le> 12 \<and> (12::real) \<le> 2 ^ 20 \<and> (0::real) \<le> 64 \<and> (64::real) \<le> 2 ^ 20 \<and>
   spec_lineCount (replicate 29 (CHR ''\<newline>'')) \<le> 2 ^ 20 \<and>
   Math_ceil (spec64_canvasHeightPx (Num (real (spec_lineCount (replicate 29 (CHR ''\<newline>'')))))
     (Num 12) (Num 24) (Num 40) (Num 64) (Num 40)) = Num 833 \<and>
   (\<exists>e. estimatedHeight (replicate 29 (CHR ''\<newline>'')) (Num 12) (Num 64) = Num (of_int e) \<and>
      \<bar>e - \<lceil>spec_canvasHeightPx (real (spec_lineCount (replicate 29 (CHR ''\<newline>''))))
             12 24 40 64 40\<rceil>\<bar> \<le> 1)"
proof -
  have n: "spec_lineCount (replicate 29 (CHR ''\<newline>'')) \<le> 2 ^ 20"
    by (simp add: spec_lineCount_def count_list_replicate)
  have e: "estimatedHeight (replicate 29 (CHR ''\<newline>'')) (Num 12) (Num 64) = Num 833"
    by (rule estimate_thirty_lines) (simp add: lineCount_replicate)
  note t = estimate_is_rounded_layout_formula [of "replicate 29 (CHR ''\<newline>'')" "Num 12" "Num 64"
        demo_world "Map.empty" 12 64]
  have h: "(0::real) \<le> 12 \<and> (12::real) \<le> 2 ^ 20 \<and> (0::real) \<le> 64 \<and> (64::real) \<le> 2 ^ 20 \<and>
      spec_lineCount (replicate 29 (CHR ''\<newline>'')) \<le> 2 ^ 20"
    using n by simp
  have a: "Math_ceil (spec64_canvasHeightPx
      (Num (real (spec_lineCount (replicate 29 (CHR ''\<newline>''))))) (Num 12) (Num 24) (Num 40)
      (Num 64) (Num 40)) = Num 833"
    unfolding t [THEN conjunct1, symmetric] by (rule e)
  have b: "\<exists>e. estimatedHeight (replicate 29 (CHR ''\<newline>'')) (Num 12) (Num 64) = Num (of_int e) \<and>
      \<bar>e - \<lceil>spec_canvasHeightPx (real (spec_lineCount (replicate 29 (CHR ''\<newline>''))))
             12 24 40 64 40\<rceil>\<bar> \<le> 1"
    by (rule t [THEN conjunct2, THEN conjunct2, THEN mp, OF h])
  from h a b show ?thesis by blast
qed

text \<open>
  Claim C6 does not hold as stated.  With a canvas padding of \<open>2 ^ 1023\<close>, which is not
  negative, the doubled padding overflows to \<^verbatim>\<open>Infinity\<close>; at the font size \<open>- 3 * 2 ^ 1022\<close>
  the line height overflows to \<^verbatim>\<open>-Infinity\<close>, and the estimate is \<^verbatim>\<open>NaN\<close>.  At the larger font
  size 16 the estimate is \<^verbatim>\<open>Infinity\<close>, and \<^verbatim>\<open>NaN <= Infinity\<close> is false.
\<close>

theorem estimate_not_monotone_in_font_size:
  "- (3 * 2 ^ 1022) \<le> (16::real) \<and> (0::real) \<le> 2 ^ 1023 \<and>
   estimatedHeight ''a'' (Num (- (3 * 2 ^ 1022))) (Num (2 ^ 1023)) = NaN \<and>
   estimatedHeight ''a'' (Num 16) (Num (2 ^ 1023)) = PosInfinity \<and>
   \<not> jle (estimatedHeight ''a'' (Num (- (3 * 2 ^ 1022))) (Num (2 ^ 1023)))
          (estimatedHeight ''a'' (Num 16) (Num (2 ^ 1023)))"
proof -
  have a: "estimatedHeight ''a'' (Num (- (3 * 2 ^ 1022))) (Num (2 ^ 1023)) = NaN"
    by (rule estimate_font_overflow) (rule lineCount_examples)
  have b: "estimatedHeight ''a'' (Num 16) (Num (2 ^ 1023)) = PosInfinity"
    by (rule estimate_padding_overflow) (rule lineCount_examples)
  have c: "- (3 * 2 ^ 1022) \<le> (16::real)"
  proof -
    have "(0::real) \<le> 3 * 2 ^ 1022" by simp
    then show ?thesis by linarith
  qed
  show ?thesis unfolding a b using c by simp
qed

text \<open>
  Claim C6, amended.  For a canvas padding that is not negative, the height estimate does not
  decrease when the code has more lines, at an equal font size that is not negative; and it
  does not decrease when the font size grows, at an equal line count, if the smaller font
  size is not negative or the doubled padding is a finite number.
\<close>

theorem estimate_monotone_nonneg:
  "(lineCount c1 \<le> lineCount c2 \<and> 0 \<le> f \<and> 0 \<le> p \<longrightarrow>
      jle (estimatedHeight c1 (Num f) (Num p)) (estimatedHeight c2 (Num f) (Num p))) \<and>
   (f1 \<le> f2 \<and> 0 \<le> p \<and> (0 \<le> f1 \<or> isFinite (jmul (Num p) (Num 2))) \<longrightarrow>
      jle (estimatedHeight c (Num f1) (Num p)) (estimatedHeight c (Num f2) (Num p)))"
proof (intro conjI impI)
  assume "lineCount c1 \<le> lineCount c2 \<and> 0 \<le> f \<and> 0 \<le> p"
  then show "jle (estimatedHeight c1 (Num f) (Num p)) (estimatedHeight c2 (Num f) (Num p))"
    by (simp add: estimate_mono_lines)
next
  assume a: "f1 \<le> f2 \<and> 0 \<le> p \<and> (0 \<le> f1 \<or> isFinite (jmul (Num p) (Num 2)))"
  then consider "0 \<le> f1" | "isFinite (jmul (Num p) (Num 2))" by blast
  then show "jle (estimatedHeight c (Num f1) (Num p)) (estimatedHeight c (Num f2) (Num p))"
  proof cases
    case 1
    with a show ?thesis by (simp add: estimate_mono_font_nonneg)
  next
    case 2
    with a show ?thesis by (simp add: estimate_mono_font_finite)
  qed
qed

text \<open>
  With the default padding: two lines need more than one, 308 pixels against 282, and the
  font size 16 more than the font size -5.
\<close>

theorem estimate_monotone_nonneg_witness:
  "lineCount ''a'' \<le> lineCount ''a\<newline>b'' \<and> (0::real) \<le> 16 \<and> (0::real) \<le> 64 \<and>
   estimatedHeight ''a'' (Num 16) (Num 64) = Num 282 \<and>
   estimatedHeight ''a\<newline>b'' (Num 16) (Num 64) = Num 308 \<and>
   jle (estimatedHeight ''a'' (Num 16) (Num 64)) (estimatedHeight ''a\<newline>b'' (Num 16) (Num 64)) \<and>
   (- 5::real) \<le> 16 \<and> isFinite (jmul (Num 64) (Num 2)) \<and>
   jle (estimatedHeight ''a'' (Num (- 5)) (Num 64)) (estimatedHeight ''a'' (Num 16) (Num 64))"
proof -
  have 1: "lineCount ''a'' \<le> lineCount ''a\<newline>b''" by (simp add: lineCount_examples)
  have 2: "isFinite (jmul (Num 64) (Num 2))" by (simp add: round64_eval)
  have 3: "estimatedHeight ''a'' (Num 16) (Num 64) = Num 282"
    by (rule estimate_one_line) (rule lineCount_examples)
  have 4: "estimatedHeight ''a\<newline>b'' (Num 16) (Num 64) = Num 308"
    by (rule estimate_two_lines) (rule lineCount_examples)
  show ?thesis
    using estimate_monotone_nonneg [of "''a''" "''a\<newline>b''" 16 64 "- 5" 16 "''a''"] 1 2 3 4
    by simp
qed




section \<open>Numeric options\<close>








section \<open>The browser session\<close>

lemma main_body_render:
  "parseArgs argv = Inr opts \<Longrightarrow> \<not> truthy (opts ''help'') \<Longrightarrow> readInput w opts = Inr code
   \<Longrightarrow> main_body w argv = render w opts code"
  by (simp add: main_body_def)

text \<open>The successful run, for any environment.\<close>

lemma main_success:
  assumes "parseArgs argv = Inr opts" and "\<not> truthy (opts ''help'')"
    and "readInput w opts = Inr code"
    and "s = read_settings w opts"
    and "codeToHtml w code (resolved_lang w s) (resolved_theme w s) = Inr codeHtml"
    and "measure_frame w (session_html w s codeHtml) (session_viewport s code) = Some r"
    and "dirname w (s_output s) = Inr dir" and "mkdir w dir = None"
  shows "main w argv =
     \<lparr>events = warnings w s @
        [Launch, NewPage, SetViewport (session_viewport s code),
         SetContent (session_html w s codeHtml), Evaluate, Mkdir dir,
         Screenshot (s_output s) (frame_clip (Some r)) False, BrowserClose,
         Stdout (''Wrote '' @ js_String (s_output s) @ ''\<newline>'')],
      exit_code = 0\<rparr>"
proof -
  have "main_body w argv = render w opts code"
    using assms(1-3) by (rule main_body_render)
  moreover have "page_session w (session_viewport s code) (session_html w s codeHtml) (s_output s) =
      ([NewPage, SetViewport (session_viewport s code), SetContent (session_html w s codeHtml),
        Evaluate, Mkdir dir, Screenshot (s_output s) (frame_clip (Some r)) False], None)"
    using assms(6-8) by (simp add: page_session_def frame_clip_def)
  ultimately show ?thesis
    using assms(4,5) by (simp add: main_def render_def Let_def)
qed

lemma render_frame_absent:
  assumes "codeToHtml w code (resolved_lang w (read_settings w opts))
             (resolved_theme w (read_settings w opts)) = Inr codeHtml"
    and "measure_frame w (session_html w (read_settings w opts) codeHtml)
           (session_viewport (read_settings w opts) code) = None"
  shows "render w opts code =
     (warnings w (read_settings w opts) @
        [Launch, NewPage, SetViewport (session_viewport (read_settings w opts) code),
         SetContent (session_html w (read_settings w opts) codeHtml), Evaluate, BrowserClose],
      Some (Error ''Failed to locate canvas for screenshot.''))"
  using assms by (simp add: render_def page_session_def frame_clip_def Let_def)

text \<open>
  Claim C4.  When the input is read, the code is highlighted and the frame is not found in the
  loaded document, the run is exactly: the warnings, one launch, one page with one load and
  one measurement, the browser closed, then the message of the failure on the diagnostic
  stream, and exit status 1.  Nothing is created or written, and nothing is tried twice.
\<close>

theorem frame_absent_fails:
  assumes "parseArgs argv = Inr opts" and "\<not> truthy (opts ''help'')"
    and "readInput w opts = Inr code"
    and "s = read_settings w opts"
    and "codeToHtml w code (resolved_lang w s) (resolved_theme w s) = Inr codeHtml"
    and "measure_frame w (session_html w s codeHtml) (session_viewport s code) = None"
  shows "main w argv =
     \<lparr>events = warnings w s @ [Launch, NewPage, SetViewport (session_viewport s code),
        SetContent (session_html w s codeHtml), Evaluate, BrowserClose,
        Stderr ''Failed to locate canvas for screenshot.\<newline>''],
      exit_code = 1\<rparr>"
proof -
  have "main_body w argv = render w opts code"
    using assms(1-3) by (rule main_body_render)
  then show ?thesis
    using render_frame_absent [of w code opts codeHtml] assms(4-6)
    by (simp add: main_def)
qed

theorem frame_absent_fails_witness:
  \<open>parseArgs [''--input'', ''example.js''] = Inr [''_'' \<mapsto> JArr [], ''input'' \<mapsto> JStr ''example.js''] \<and>
   readInput frameless_world [''_'' \<mapsto> JArr [], ''input'' \<mapsto> JStr ''example.js'']
     = Inr ''console.log(1+1)'' \<and>
   exit_code (main frameless_world [''--input'', ''example.js'']) = 1 \<and>
   last (events (main frameless_world [''--input'', ''example.js'']))
     = Stderr ''Failed to locate canvas for screenshot.\<newline>'' \<and>
   last (butlast (events (main frameless_world [''--input'', ''example.js'']))) = BrowserClose\<close>
proof -
  let ?w = "frameless_world"
  let ?opts = "[''_'' \<mapsto> JArr [], ''input'' \<mapsto> JStr ''example.js'']"
  let ?html = \<open>''<pre class="shiki"><code>'' @ ''console.log(1+1)'' @ ''</code></pre>''\<close>
  have 1: "parseArgs [''--input'', ''example.js''] = Inr ?opts"
    by (simp add: parseArgs_def)
  have 2: "\<not> truthy (?opts ''help'')" by simp
  have 3: "readInput ?w ?opts = Inr ''console.log(1+1)''"
    by (simp add: readInput_def demo_world_def frameless_world_def)
  have 5: "codeToHtml ?w ''console.log(1+1)'' (resolved_lang ?w (read_settings ?w ?opts))
             (resolved_theme ?w (read_settings ?w ?opts)) = Inr ?html"
    by (simp add: demo_world_def frameless_world_def)
  have 6: "measure_frame ?w (session_html ?w (read_settings ?w ?opts) ?html)
             (session_viewport (read_settings ?w ?opts) ''console.log(1+1)'') = None"
    by (simp add: frameless_world_def)
  show ?thesis
    using frame_absent_fails [OF 1 2 3 refl 5 6] 1 3 by (simp add: butlast_append)
qed

text \<open>
  Every run of \<^verbatim>\<open>main\<close> either writes nothing to the file system, or is the successful run:
  the frame was measured in the document and viewport of this run, the directory of the
  output path was created after that, and the one screenshot is clipped to the frame.
\<close>

lemma page_session_cases:
  "list_all silent (fst (page_session w vp html output)) \<or>
   (\<exists>r dir. measure_frame w html vp = Some r \<and> dirname w output = Inr dir \<and> mkdir w dir = None \<and>
      page_session w vp html output =
        ([NewPage, SetViewport vp, SetContent html, Evaluate, Mkdir dir,
          Screenshot output (frame_clip (Some r)) False], None))"
proof (cases "measure_frame w html vp")
  case None
  then show ?thesis by (simp add: page_session_def frame_clip_def)
next
  case (Some r)
  show ?thesis
  proof (cases "dirname w output")
    case (Inl e)
    with Some show ?thesis by (simp add: page_session_def frame_clip_def)
  next
    case (Inr dir)
    with Some show ?thesis
      by (cases "mkdir w dir") (simp_all add: page_session_def frame_clip_def)
  qed
qed

lemma silent_warnings: "list_all silent (warnings w s)"
  by (simp add: warnings_def not_found_warning_def)

lemma render_cases:
  "list_all silent (fst (render w opts code)) \<or>
   (\<exists>codeHtml r dir.
      codeToHtml w code (resolved_lang w (read_settings w opts)) (resolved_theme w (read_settings w opts))
        = Inr codeHtml \<and>
      measure_frame w (session_html w (read_settings w opts) codeHtml)
        (session_viewport (read_settings w opts) code) = Some r \<and>
      dirname w (s_output (read_settings w opts)) = Inr dir \<and> mkdir w dir = None \<and>
      render w opts code =
        (warnings w (read_settings w opts) @
           [Launch, NewPage, SetViewport (session_viewport (read_settings w opts) code),
            SetContent (session_html w (read_settings w opts) codeHtml), Evaluate, Mkdir dir,
            Screenshot (s_output (read_settings w opts)) (frame_clip (Some r)) False,
            BrowserClose,
            Stdout (''Wrote '' @ js_String (s_output (read_settings w opts)) @ ''\<newline>'')],
         None))"
proof (cases "codeToHtml w code (resolved_lang w (read_settings w opts))
    (resolved_theme w (read_settings w opts))")
  case (Inl e)
  then show ?thesis by (simp add: render_def Let_def silent_warnings)
next
  case (Inr codeHtml)
  define vp where "vp = session_viewport (read_settings w opts) code"
  define html where "html = session_html w (read_settings w opts) codeHtml"
  define out where "out = s_output (read_settings w opts)"
  consider (quiet) "list_all silent (fst (page_session w vp html out))"
    | (written) r dir where "measure_frame w html vp = Some r" "dirname w out = Inr dir"
        "mkdir w dir = None"
        "page_session w vp html out =
           ([NewPage, SetViewport vp, SetContent html, Evaluate, Mkdir dir,
             Screenshot out (frame_clip (Some r)) False], None)"
    using page_session_cases [of w vp html out] by blast
  then show ?thesis
  proof cases
    case quiet
    obtain evs res where ps: "page_session w vp html out = (evs, res)"
      by (cases "page_session w vp html out") auto
    with quiet have "list_all silent evs" by simp
    with Inr ps have "list_all silent (fst (render w opts code))"
      by (cases res) (simp_all add: render_def Let_def silent_warnings vp_def html_def out_def)
    then show ?thesis by simp
  next
    case written
    with Inr have "render w opts code =
        (warnings w (read_settings w opts) @
           [Launch, NewPage, SetViewport vp, SetContent html, Evaluate, Mkdir dir,
            Screenshot out (frame_clip (Some r)) False, BrowserClose,
            Stdout (''Wrote '' @ js_String out @ ''\<newline>'')], None)"
      by (simp add: render_def Let_def vp_def html_def out_def)
    with Inr written(1-3) show ?thesis
      unfolding vp_def html_def out_def by blast
  qed
qed

lemma main_cases:
  "list_all silent (events (main w argv)) \<or>
   (\<exists>opts code codeHtml r dir.
      parseArgs argv = Inr opts \<and> readInput w opts = Inr code \<and>
      codeToHtml w code (resolved_lang w (read_settings w opts)) (resolved_theme w (read_settings w opts))
        = Inr codeHtml \<and>
      measure_frame w (session_html w (read_settings w opts) codeHtml)
        (session_viewport (read_settings w opts) code) = Some r \<and>
      dirname w (s_output (read_settings w opts)) = Inr dir \<and> mkdir w dir = None \<and>
      main w argv =
        \<lparr>events = warnings w (read_settings w opts) @
           [Launch, NewPage, SetViewport (session_viewport (read_settings w opts) code),
            SetContent (session_html w (read_settings w opts) codeHtml), Evaluate, Mkdir dir,
            Screenshot (s_output (read_settings w opts)) (frame_clip (Some r)) False,
            BrowserClose,
            Stdout (''Wrote '' @ js_String (s_output (read_settings w opts)) @ ''\<newline>'')],
         exit_code = 0\<rparr>)"
proof (cases "parseArgs argv")
  case (Inl e)
  then show ?thesis by (simp add: main_def main_body_def)
next
  case (Inr opts)
  show ?thesis
  proof (cases "truthy (opts ''help'')")
    case True
    with Inr show ?thesis by (simp add: main_def main_body_def)
  next
    case False
    show ?thesis
    proof (cases "readInput w opts")
      case (Inl e)
      with Inr False show ?thesis by (simp add: main_def main_body_def)
    next
      case inp: (Inr code)
      have mb: "main_body w argv = render w opts code"
        using Inr False inp by (rule main_body_render)
      from render_cases [of w opts code] show ?thesis
      proof
        assume q: "list_all silent (fst (render w opts code))"
        obtain evs res where r: "render w opts code = (evs, res)"
          by (cases "render w opts code") auto
        with q mb have "list_all silent (events (main w argv))"
          by (cases res) (simp_all add: main_def)
        then show ?thesis by simp
      next
        assume "\<exists>codeHtml r dir.
          codeToHtml w code (resolved_lang w (read_settings w opts))
            (resolved_theme w (read_settings w opts)) = Inr codeHtml \<and>
          measure_frame w (session_html w (read_settings w opts) codeHtml)
            (session_viewport (read_settings w opts) code) = Some r \<and>
          dirname w (s_output (read_settings w opts)) = Inr dir \<and> mkdir w dir = None \<and>
          render w opts code =
            (warnings w (read_settings w opts) @
               [Launch, NewPage, SetViewport (session_viewport (read_settings w opts) code),
                SetContent (session_html w (read_settings w opts) codeHtml), Evaluate, Mkdir dir,
                Screenshot (s_output (read_settings w opts)) (frame_clip (Some r)) False,
                BrowserClose,
                Stdout (''Wrote '' @ js_String (s_output (read_settings w opts)) @ ''\<newline>'')],
             None)"
        then obtain codeHtml r dir where
          h: "codeToHtml w code (resolved_lang w (read_settings w opts))
                (resolved_theme w (read_settings w opts)) = Inr codeHtml"
             "measure_frame w (session_html w (read_settings w opts) codeHtml)
                (session_viewport (read_settings w opts) code) = Some r"
             "dirname w (s_output (read_settings w opts)) = Inr dir" "mkdir w dir = None"
          and r: "render w opts code =
            (warnings w (read_settings w opts) @
               [Launch, NewPage, SetViewport (session_viewport (read_settings w opts) code),
                SetContent (session_html w (read_settings w opts) codeHtml), Evaluate, Mkdir dir,
                Screenshot (s_output (read_settings w opts)) (frame_clip (Some r)) False,
                BrowserClose,
                Stdout (''Wrote '' @ js_String (s_output (read_settings w opts)) @ ''\<newline>'')],
             None)"
          by blast
        from mb r have "main w argv =
          \<lparr>events = warnings w (read_settings w opts) @
             [Launch, NewPage, SetViewport (session_viewport (read_settings w opts) code),
              SetContent (session_html w (read_settings w opts) codeHtml), Evaluate, Mkdir dir,
              Screenshot (s_output (read_settings w opts)) (frame_clip (Some r)) False,
              BrowserClose,
              Stdout (''Wrote '' @ js_String (s_output (read_settings w opts)) @ ''\<newline>'')],
           exit_code = 0\<rparr>"
          by (simp add: main_def)
        with Inr inp h show ?thesis by blast
      qed
    qed
  qed
qed

lemma silent_no_mkdir: "list_all silent evs \<Longrightarrow> Mkdir d \<notin> set evs"
  by (induction evs) auto

lemma silent_no_clips: "list_all silent evs \<Longrightarrow> screenshot_clips evs = []"
  by (induction evs rule: screenshot_clips.induct) simp_all

lemma screenshot_clips_append:
  "screenshot_clips (a @ b) = screenshot_clips a @ screenshot_clips b"
  by (induction a rule: screenshot_clips.induct) simp_all

text \<open>The run \<^verbatim>\<open>--input example.js\<close> in the example environment, step by step.\<close>

lemma demo_parse:
  "parseArgs [''--input'', ''example.js''] = Inr [''_'' \<mapsto> JArr [], ''input'' \<mapsto> JStr ''example.js'']"
  by (simp add: parseArgs_def)

lemma demo_read:
  "readInput demo_world [''_'' \<mapsto> JArr [], ''input'' \<mapsto> JStr ''example.js''] = Inr ''console.log(1+1)''"
  by (simp add: readInput_def demo_world_def)

lemma demo_highlight:
  \<open>codeToHtml demo_world ''console.log(1+1)'' lang theme
     = Inr ''<pre class="shiki"><code>console.log(1+1)</code></pre>''\<close>
  by (simp add: demo_world_def)

lemma demo_settings:
  "read_settings demo_world [''_'' \<mapsto> JArr [], ''input'' \<mapsto> JStr ''example.js''] =
     \<lparr>requestedLang = JStr ''javascript'', requestedTheme = JStr ''nord'',
      s_width = Num 960, s_padding = Num 64, s_font = JStr DEFAULTS_font,
      s_title = JStr ''snippet'', s_background = JStr DEFAULTS_background,
      s_output = JStr ''snippet.png'', s_scale = Num 2, s_fontSize = Num 16\<rparr>"
  by (simp add: read_settings_def or_default_def js_or_def toNumber_def)

lemma demo_viewport:
  "s_width s = Num 960 \<Longrightarrow> s_padding s = Num 64 \<Longrightarrow> s_scale s = Num 2 \<Longrightarrow> s_fontSize s = Num 16 \<Longrightarrow>
   session_viewport s ''console.log(1+1)'' =
     \<lparr>vp_width = Num 1088, vp_height = Num 480, deviceScaleFactor = Num 2\<rparr>"
  by (simp add: session_viewport_def estimate_one_line lineCount_examples round64_eval)

lemma demo_measure:
  "measure_frame demo_world html \<lparr>vp_width = Num 1088, vp_height = Num 480, deviceScaleFactor = Num 2\<rparr>
     = Some demo_rect"
  by (simp add: demo_world_def reel_viewport_def)

lemma demo_measured:
  "measure_frame demo_world html
     (session_viewport (read_settings demo_world [''_'' \<mapsto> JArr [], ''input'' \<mapsto> JStr ''example.js''])
        ''console.log(1+1)'') = Some demo_rect"
proof -
  have "session_viewport (read_settings demo_world [''_'' \<mapsto> JArr [], ''input'' \<mapsto> JStr ''example.js''])
      ''console.log(1+1)'' = \<lparr>vp_width = Num 1088, vp_height = Num 480, deviceScaleFactor = Num 2\<rparr>"
    by (rule demo_viewport) (simp_all add: demo_settings)
  then show ?thesis by (simp add: demo_measure)
qed

lemma demo_dirname:
  "dirname demo_world (s_output (read_settings demo_world
     [''_'' \<mapsto> JArr [], ''input'' \<mapsto> JStr ''example.js''])) = Inr ''.''"
  unfolding demo_settings by (simp add: demo_world_def)

lemma demo_mkdir: "mkdir demo_world d = None"
  by (simp add: demo_world_def)

text \<open>
  Claim C8.  In a run that measures the frame and can create the output directory, the one
  screenshot is taken with a clip that is the measured rectangle of the frame, its origin
  rounded down and its width and height rounded up to whole pixels.
\<close>

theorem crop_is_rounded_frame:
  assumes "parseArgs argv = Inr opts" and "\<not> truthy (opts ''help'')"
    and "readInput w opts = Inr code"
    and "s = read_settings w opts"
    and "codeToHtml w code (resolved_lang w s) (resolved_theme w s) = Inr codeHtml"
    and "measure_frame w (session_html w s codeHtml) (session_viewport s code) = Some r"
    and "dirname w (s_output s) = Inr dir" and "mkdir w dir = None"
  shows "events (main w argv) =
     warnings w s @
       [Launch, NewPage, SetViewport (session_viewport s code),
        SetContent (session_html w s codeHtml), Evaluate, Mkdir dir,
        Screenshot (s_output s)
          (Some \<lparr>clip_x = of_int \<lfloor>rect_x r\<rfloor>, clip_y = of_int \<lfloor>rect_y r\<rfloor>,
                 clip_width = of_int \<lceil>rect_width r\<rceil>, clip_height = of_int \<lceil>rect_height r\<rceil>\<rparr>)
          False,
        BrowserClose, Stdout (''Wrote '' @ js_String (s_output s) @ ''\<newline>'')]"
  using main_success [OF assms] by (simp add: frame_clip_def)

theorem crop_is_rounded_frame_witness:
  \<open>parseArgs [''--input'', ''example.js''] = Inr [''_'' \<mapsto> JArr [], ''input'' \<mapsto> JStr ''example.js''] \<and>
   readInput demo_world [''_'' \<mapsto> JArr [], ''input'' \<mapsto> JStr ''example.js''] = Inr ''console.log(1+1)'' \<and>
   measure_frame demo_world
     (session_html demo_world
        (read_settings demo_world [''_'' \<mapsto> JArr [], ''input'' \<mapsto> JStr ''example.js''])
        ''<pre class="shiki"><code>console.log(1+1)</code></pre>'')
     (session_viewport (read_settings demo_world [''_'' \<mapsto> JArr [], ''input'' \<mapsto> JStr ''example.js''])
        ''console.log(1+1)'')
     = Some \<lparr>rect_x = 64.5, rect_y = 133.25, rect_width = 960, rect_height = 153.6\<rparr> \<and>
   screenshot_clips (events (main demo_world [''--input'', ''example.js''])) =
     [Some \<lparr>clip_x = 64, clip_y = 133, clip_width = 960, clip_height = 154\<rparr>]\<close>
proof -
  let ?opts = "[''_'' \<mapsto> JArr [], ''input'' \<mapsto> JStr ''example.js'']"
  have 2: "\<not> truthy (?opts ''help'')" by simp
  have w: "screenshot_clips (warnings demo_world (read_settings demo_world ?opts)) = []"
    using silent_warnings by (rule silent_no_clips)
  show ?thesis
    using crop_is_rounded_frame
      [OF demo_parse 2 demo_read refl demo_highlight demo_measured demo_dirname demo_mkdir]
      demo_parse demo_read demo_measured w
    by (simp add: screenshot_clips_append demo_rect_def)
qed

text \<open>
  Claim C7.  Without \<^verbatim>\<open>--help\<close>, without \<^verbatim>\<open>--input\<close>, without a positional argument and with a
  terminal as standard input, the whole run is the message of the failure on the diagnostic
  stream and exit status 1: no browser, no directory, no file.  And in every run in which a
  directory is created, the frame of that run's document had been measured.
\<close>

theorem no_input_fails:
  assumes "parseArgs argv = Inr opts" and "\<not> truthy (opts ''help'')"
    and "\<not> truthy (opts ''input'')" and "opts ''_'' = Some (JArr [])"
    and "stdin_data w = None"
  shows "main w argv =
           \<lparr>events = [Stderr ''No input provided. Use --input or pipe code via stdin.\<newline>''],
            exit_code = 1\<rparr> \<and>
         (\<forall>w' argv' d. Mkdir d \<in> set (events (main w' argv')) \<longrightarrow>
            (\<exists>opts' code codeHtml r.
               parseArgs argv' = Inr opts' \<and> readInput w' opts' = Inr code \<and>
               codeToHtml w' code (resolved_lang w' (read_settings w' opts'))
                 (resolved_theme w' (read_settings w' opts')) = Inr codeHtml \<and>
               measure_frame w' (session_html w' (read_settings w' opts') codeHtml)
                 (session_viewport (read_settings w' opts') code) = Some r))"
proof
  have "readInput w opts = Inl (Error ''No input provided. Use --input or pipe code via stdin.'')"
    using assms(3-5) by (simp add: readInput_def)
  then have "main_body w argv =
      ([], Some (Error ''No input provided. Use --input or pipe code via stdin.''))"
    using assms(1,2) by (simp add: main_body_def)
  then show "main w argv =
           \<lparr>events = [Stderr ''No input provided. Use --input or pipe code via stdin.\<newline>''],
            exit_code = 1\<rparr>"
    by (simp add: main_def)
next
  show "\<forall>w' argv' d. Mkdir d \<in> set (events (main w' argv')) \<longrightarrow>
            (\<exists>opts' code codeHtml r.
               parseArgs argv' = Inr opts' \<and> readInput w' opts' = Inr code \<and>
               codeToHtml w' code (resolved_lang w' (read_settings w' opts'))
                 (resolved_theme w' (read_settings w' opts')) = Inr codeHtml \<and>
               measure_frame w' (session_html w' (read_settings w' opts') codeHtml)
                 (session_viewport (read_settings w' opts') code) = Some r)"
  proof (intro allI impI)
    fix w' argv' d
    assume m: "Mkdir d \<in> set (events (main w' argv'))"
    then have "\<not> list_all silent (events (main w' argv'))"
      using silent_no_mkdir by blast
    with main_cases [of w' argv'] show "\<exists>opts' code codeHtml r.
               parseArgs argv' = Inr opts' \<and> readInput w' opts' = Inr code \<and>
               codeToHtml w' code (resolved_lang w' (read_settings w' opts'))
                 (resolved_theme w' (read_settings w' opts')) = Inr codeHtml \<and>
               measure_frame w' (session_html w' (read_settings w' opts') codeHtml)
                 (session_viewport (read_settings w' opts') code) = Some r"
      by blast
  qed
qed

text \<open>Two whole runs in the example environment.\<close>

lemma demo_settings_js:
  "read_settings demo_world
     [''_'' \<mapsto> JArr [], ''input'' \<mapsto> JStr ''example.js'', ''lang'' \<mapsto> JStr ''js''] =
     \<lparr>requestedLang = JStr ''js'', requestedTheme = JStr ''nord'',
      s_width = Num 960, s_padding = Num 64, s_font = JStr DEFAULTS_font,
      s_title = JStr ''snippet'', s_background = JStr DEFAULTS_background,
      s_output = JStr ''snippet.png'', s_scale = Num 2, s_fontSize = Num 16\<rparr>"
  by (simp add: read_settings_def or_default_def js_or_def toNumber_def)

lemma demo_frame_clip:
  "frame_clip (Some demo_rect) =
     Some \<lparr>clip_x = 64, clip_y = 133, clip_width = 960, clip_height = 154\<rparr>"
  by (simp add: frame_clip_def demo_rect_def)

lemma demo_run:
  \<open>main demo_world [''--input'', ''example.js''] =
     \<lparr>events =
        [Launch, NewPage,
         SetViewport \<lparr>vp_width = Num 1088, vp_height = Num 480, deviceScaleFactor = Num 2\<rparr>,
         SetContent (session_html demo_world
            (read_settings demo_world [''_'' \<mapsto> JArr [], ''input'' \<mapsto> JStr ''example.js''])
            ''<pre class="shiki"><code>console.log(1+1)</code></pre>''),
         Evaluate, Mkdir ''.'',
         Screenshot (JStr ''snippet.png'')
           (Some \<lparr>clip_x = 64, clip_y = 133, clip_width = 960, clip_height = 154\<rparr>) False,
         BrowserClose, Stdout ''Wrote snippet.png\<newline>''],
      exit_code = 0\<rparr>\<close>
proof -
  let ?opts = "[''_'' \<mapsto> JArr [], ''input'' \<mapsto> JStr ''example.js'']"
  let ?s = "read_settings demo_world ?opts"
  let ?html = \<open>''<pre class="shiki"><code>console.log(1+1)</code></pre>''\<close>
  have vp: "session_viewport ?s ''console.log(1+1)'' =
      \<lparr>vp_width = Num 1088, vp_height = Num 480, deviceScaleFactor = Num 2\<rparr>"
    by (rule demo_viewport) (simp_all add: demo_settings)
  have out: "s_output ?s = JStr ''snippet.png''" by (simp add: demo_settings)
  have 1: "parseArgs [''--input'', ''example.js''] = Inr ?opts"
    by (simp add: parseArgs_def)
  have 2: "\<not> truthy (?opts ''help'')" by simp
  have 3: "readInput demo_world ?opts = Inr ''console.log(1+1)''"
    by (simp add: readInput_def demo_world_def)
  have 5: "codeToHtml demo_world ''console.log(1+1)'' (resolved_lang demo_world ?s)
             (resolved_theme demo_world ?s) = Inr ?html"
    by (simp add: demo_world_def)
  have 6: "measure_frame demo_world (session_html demo_world ?s ?html)
             (session_viewport ?s ''console.log(1+1)'') = Some demo_rect"
    unfolding vp by (rule demo_measure)
  have 7: "dirname demo_world (s_output ?s) = Inr ''.''"
    unfolding out by (simp add: demo_world_def)
  have 8: "mkdir demo_world ''.'' = None" by (simp add: demo_world_def)
  have w: "warnings demo_world ?s = []"
    unfolding demo_settings
    by (simp add: warnings_def not_found_warning_def resolved_theme_def
        resolved_lang_def resolveTheme_def resolveLanguage_def normalize_alias_def aliases_def
        array_includes_def demo_world_def)
  show ?thesis
    using main_success [OF 1 2 3 refl 5 6 7 8]
    unfolding vp out w demo_frame_clip by simp
qed

lemma demo_run_js:
  \<open>main demo_world [''--input'', ''example.js'', ''--lang'', ''js''] =
     \<lparr>events =
        [Stderr ''Language "js" not found. Using "javascript".\<newline>'',
         Launch, NewPage,
         SetViewport \<lparr>vp_width = Num 1088, vp_height = Num 480, deviceScaleFactor = Num 2\<rparr>,
         SetContent (session_html demo_world
            (read_settings demo_world
               [''_'' \<mapsto> JArr [], ''input'' \<mapsto> JStr ''example.js'', ''lang'' \<mapsto> JStr ''js''])
            ''<pre class="shiki"><code>console.log(1+1)</code></pre>''),
         Evaluate, Mkdir ''.'',
         Screenshot (JStr ''snippet.png'')
           (Some \<lparr>clip_x = 64, clip_y = 133, clip_width = 960, clip_height = 154\<rparr>) False,
         BrowserClose, Stdout ''Wrote snippet.png\<newline>''],
      exit_code = 0\<rparr>\<close>
proof -
  let ?opts = "[''_'' \<mapsto> JArr [], ''input'' \<mapsto> JStr ''example.js'', ''lang'' \<mapsto> JStr ''js'']"
  let ?s = "read_settings demo_world ?opts"
  let ?html = \<open>''<pre class="shiki"><code>console.log(1+1)</code></pre>''\<close>
  have vp: "session_viewport ?s ''console.log(1+1)'' =
      \<lparr>vp_width = Num 1088, vp_height = Num 480, deviceScaleFactor = Num 2\<rparr>"
    by (rule demo_viewport) (simp_all add: demo_settings_js)
  have out: "s_output ?s = JStr ''snippet.png''" by (simp add: demo_settings_js)
  have 1: "parseArgs [''--input'', ''example.js'', ''--lang'', ''js''] = Inr ?opts"
    by (simp add: parseArgs_def)
  have 2: "\<not> truthy (?opts ''help'')" by simp
  have 3: "readInput demo_world ?opts = Inr ''console.log(1+1)''"
    by (simp add: readInput_def demo_world_def)
  have 5: "codeToHtml demo_world ''console.log(1+1)'' (resolved_lang demo_world ?s)
             (resolved_theme demo_world ?s) = Inr ?html"
    by (simp add: demo_world_def)
  have 6: "measure_frame demo_world (session_html demo_world ?s ?html)
             (session_viewport ?s ''console.log(1+1)'') = Some demo_rect"
    unfolding vp by (rule demo_measure)
  have 7: "dirname demo_world (s_output ?s) = Inr ''.''"
    unfolding out by (simp add: demo_world_def)
  have 8: "mkdir demo_world ''.'' = None" by (simp add: demo_world_def)
  have w: \<open>warnings demo_world ?s = [Stderr ''Language "js" not found. Using "javascript".\<newline>'']\<close>
    unfolding demo_settings_js
    by (simp add: warnings_def not_found_warning_def resolved_theme_def
        resolved_lang_def resolveTheme_def resolveLanguage_def normalize_alias_def aliases_def
        array_includes_def demo_world_def)
  show ?thesis
    using main_success [OF 1 2 3 refl 5 6 7 8]
    unfolding vp out w demo_frame_clip by simp
qed

theorem no_input_fails_witness:
  "parseArgs [''--theme'', ''nord''] = Inr [''_'' \<mapsto> JArr [], ''theme'' \<mapsto> JStr ''nord''] \<and>
   stdin_data demo_world = None \<and>
   main demo_world [''--theme'', ''nord''] =
     \<lparr>events = [Stderr ''No input provided. Use --input or pipe code via stdin.\<newline>''],
      exit_code = 1\<rparr> \<and>
   Mkdir ''.'' \<in> set (events (main demo_world [''--input'', ''example.js''])) \<and>
   (\<exists>opts' code codeHtml r.
      parseArgs [''--input'', ''example.js''] = Inr opts' \<and> readInput demo_world opts' = Inr code \<and>
      codeToHtml demo_world code (resolved_lang demo_world (read_settings demo_world opts'))
        (resolved_theme demo_world (read_settings demo_world opts')) = Inr codeHtml \<and>
      measure_frame demo_world (session_html demo_world (read_settings demo_world opts') codeHtml)
        (session_viewport (read_settings demo_world opts') code) = Some r)"
proof -
  let ?opts = "[''_'' \<mapsto> JArr [], ''theme'' \<mapsto> JStr ''nord'']"
  have 1: "parseArgs [''--theme'', ''nord''] = Inr ?opts"
    by (simp add: parseArgs_def)
  have 2: "\<not> truthy (?opts ''help'')" by simp
  have 3: "\<not> truthy (?opts ''input'')" by simp
  have 4: "?opts ''_'' = Some (JArr [])" by simp
  have 5: "stdin_data demo_world = None" by (simp add: demo_world_def)
  have 6: "Mkdir ''.'' \<in> set (events (main demo_world [''--input'', ''example.js'']))"
    by (simp add: demo_run)
  from no_input_fails [OF 1 2 3 4 5] 6 have
    "\<exists>opts' code codeHtml r.
      parseArgs [''--input'', ''example.js''] = Inr opts' \<and> readInput demo_world opts' = Inr code \<and>
      codeToHtml demo_world code (resolved_lang demo_world (read_settings demo_world opts'))
        (resolved_theme demo_world (read_settings demo_world opts')) = Inr codeHtml \<and>
      measure_frame demo_world (session_html demo_world (read_settings demo_world opts') codeHtml)
        (session_viewport (read_settings demo_world opts') code) = Some r"
    by blast
  with no_input_fails [OF 1 2 3 4 5] 1 5 6 show ?thesis by blast
qed

section \<open>What is captured\<close>

lemma silent_not_screenshot: "silent ev \<Longrightarrow> \<not> is_screenshot ev"
  by (cases ev) simp_all

lemma silent_no_screenshots: "list_all silent evs \<Longrightarrow> screenshots evs = []"
  by (induction evs) (simp_all add: screenshots_def silent_not_screenshot)

lemma screenshots_append: "screenshots (a @ b) = screenshots a @ screenshots b"
  by (simp add: screenshots_def)

text \<open>The clip rectangle is less than one pixel away from the measured frame on every side.\<close>

lemma frame_clip_bounds:
  assumes "frame_clip (Some r) = Some c"
  shows "clip_x c \<le> rect_x r" "rect_x r < clip_x c + 1"
    "clip_y c \<le> rect_y r" "rect_y r < clip_y c + 1"
    "rect_width r \<le> clip_width c" "clip_width c < rect_width r + 1"
    "rect_height r \<le> clip_height c" "clip_height c < rect_height r + 1"
proof -
  from assms have c: "c = \<lparr>clip_x = of_int \<lfloor>rect_x r\<rfloor>, clip_y = of_int \<lfloor>rect_y r\<rfloor>,
      clip_width = of_int \<lceil>rect_width r\<rceil>, clip_height = of_int \<lceil>rect_height r\<rceil>\<rparr>"
    by (simp add: frame_clip_def)
  show "clip_x c \<le> rect_x r" "clip_y c \<le> rect_y r"
    "rect_width r \<le> clip_width c" "rect_height r \<le> clip_height c"
    unfolding c by simp_all
  show "rect_x r < clip_x c + 1" "rect_y r < clip_y c + 1"
    "clip_width c < rect_width r + 1" "clip_height c < rect_height r + 1"
    unfolding c by simp_all linarith+
qed

text \<open>
  Claim C2 does not hold as stated: the overlay frame of \<^verbatim>\<open>main.js\<close> is captured without a
  clip rectangle, so the image is the whole 1080 by 1920 viewport, although the frame of its
  document, measured in the example environment, is the rectangle 920 by 327 at (80, 841).
\<close>

theorem overlay_capture_is_whole_viewport:
  \<open>screenshot_clips (fst (renderSnippet demo_world ''console.log(1+1)'' ''EASY'' ''snippet.png'')) = [None] \<and>
   frame_clip (measure_frame demo_world
       (reel_buildHtml (numToString demo_world) ''<pre class="shiki"><code>console.log(1+1)</code></pre>''
          (Num 1080) (Num 1920) (Num 80) DEFAULTS_background DEFAULTS_font (Num 24) ''EASY'')
       reel_viewport)
     = Some \<lparr>clip_x = 80, clip_y = 841, clip_width = 920, clip_height = 327\<rparr> \<and>
   screenshot_clips (fst (renderSnippet demo_world ''console.log(1+1)'' ''EASY'' ''snippet.png''))
     \<noteq> [frame_clip (measure_frame demo_world
       (reel_buildHtml (numToString demo_world) ''<pre class="shiki"><code>console.log(1+1)</code></pre>''
          (Num 1080) (Num 1920) (Num 80) DEFAULTS_background DEFAULTS_font (Num 24) ''EASY'')
       reel_viewport)]\<close>
proof -
  have a: "screenshot_clips (fst (renderSnippet demo_world ''console.log(1+1)'' ''EASY'' ''snippet.png'')) = [None]"
    by (simp add: renderSnippet_def demo_world_def)
  have b: "frame_clip (measure_frame demo_world html reel_viewport)
      = Some \<lparr>clip_x = 80, clip_y = 841, clip_width = 920, clip_height = 327\<rparr>" for html
    by (simp add: demo_world_def frame_clip_def demo_reel_rect_def)
  show ?thesis unfolding a b by simp
qed

text \<open>
  Claim C2, amended.  A run of \<^verbatim>\<open>scripts/render-snippet.js\<close> takes no screenshot, or exactly
  one: it is written to the output path of the options, with the background, and clipped to
  the frame rectangle measured in the document and viewport of that run, in whole pixels.
  The origin of the clip is the origin of the frame rounded down and its extent is the
  extent of the frame rounded up, so each is less than one pixel away from the measured
  value.  The overlay frame of \<^verbatim>\<open>main.js\<close> is, by design, exactly one screenshot, written
  to the output path, of the whole viewport of 1080 by 1920 at scale 2: no measurement, no clip
  rectangle, background omitted.
\<close>

theorem capture_regions:
  "(screenshots (events (main w argv)) = [] \<or>
    (\<exists>opts code codeHtml r c.
       parseArgs argv = Inr opts \<and> readInput w opts = Inr code \<and>
       codeToHtml w code (resolved_lang w (read_settings w opts)) (resolved_theme w (read_settings w opts))
         = Inr codeHtml \<and>
       measure_frame w (session_html w (read_settings w opts) codeHtml)
         (session_viewport (read_settings w opts) code) = Some r \<and>
       frame_clip (Some r) = Some c \<and>
       screenshots (events (main w argv)) =
         [Screenshot (s_output (read_settings w opts)) (Some c) False] \<and>
       clip_x c \<le> rect_x r \<and> rect_x r < clip_x c + 1 \<and>
       clip_y c \<le> rect_y r \<and> rect_y r < clip_y c + 1 \<and>
       rect_width r \<le> clip_width c \<and> clip_width c < rect_width r + 1 \<and>
       rect_height r \<le> clip_height c \<and> clip_height c < rect_height r + 1)) \<and>
   (codeToHtml w code' (JStr ''javascript'') (JStr ''nord'') = Inr codeHtml' \<longrightarrow>
      screenshots (fst (renderSnippet w code' difficulty outputPath)) =
        [Screenshot (JStr outputPath) None True] \<and>
      SetViewport \<lparr>vp_width = Num 1080, vp_height = Num 1920, deviceScaleFactor = Num 2\<rparr>
        \<in> set (fst (renderSnippet w code' difficulty outputPath)) \<and>
      Evaluate \<notin> set (fst (renderSnippet w code' difficulty outputPath)))"
proof (intro conjI impI)
  from main_cases [of w argv]
  show "screenshots (events (main w argv)) = [] \<or>
    (\<exists>opts code codeHtml r c.
       parseArgs argv = Inr opts \<and> readInput w opts = Inr code \<and>
       codeToHtml w code (resolved_lang w (read_settings w opts)) (resolved_theme w (read_settings w opts))
         = Inr codeHtml \<and>
       measure_frame w (session_html w (read_settings w opts) codeHtml)
         (session_viewport (read_settings w opts) code) = Some r \<and>
       frame_clip (Some r) = Some c \<and>
       screenshots (events (main w argv)) =
         [Screenshot (s_output (read_settings w opts)) (Some c) False] \<and>
       clip_x c \<le> rect_x r \<and> rect_x r < clip_x c + 1 \<and>
       clip_y c \<le> rect_y r \<and> rect_y r < clip_y c + 1 \<and>
       rect_width r \<le> clip_width c \<and> clip_width c < rect_width r + 1 \<and>
       rect_height r \<le> clip_height c \<and> clip_height c < rect_height r + 1)"
  proof
    assume "list_all silent (events (main w argv))"
    then show ?thesis by (simp add: silent_no_screenshots)
  next
    assume "\<exists>opts code codeHtml r dir.
      parseArgs argv = Inr opts \<and> readInput w opts = Inr code \<and>
      codeToHtml w code (resolved_lang w (read_settings w opts)) (resolved_theme w (read_settings w opts))
        = Inr codeHtml \<and>
      measure_frame w (session_html w (read_settings w opts) codeHtml)
        (session_viewport (read_settings w opts) code) = Some r \<and>
      dirname w (s_output (read_settings w opts)) = Inr dir \<and> mkdir w dir = None \<and>
      main w argv =
        \<lparr>events = warnings w (read_settings w opts) @
           [Launch, NewPage, SetViewport (session_viewport (read_settings w opts) code),
            SetContent (session_html w (read_settings w opts) codeHtml), Evaluate, Mkdir dir,
            Screenshot (s_output (read_settings w opts)) (frame_clip (Some r)) False,
            BrowserClose,
            Stdout (''Wrote '' @ js_String (s_output (read_settings w opts)) @ ''\<newline>'')],
         exit_code = 0\<rparr>"
    then obtain opts code codeHtml r dir where
      h: "parseArgs argv = Inr opts" "readInput w opts = Inr code"
         "codeToHtml w code (resolved_lang w (read_settings w opts))
            (resolved_theme w (read_settings w opts)) = Inr codeHtml"
         "measure_frame w (session_html w (read_settings w opts) codeHtml)
            (session_viewport (read_settings w opts) code) = Some r"
      and m: "main w argv =
        \<lparr>events = warnings w (read_settings w opts) @
           [Launch, NewPage, SetViewport (session_viewport (read_settings w opts) code),
            SetContent (session_html w (read_settings w opts) codeHtml), Evaluate, Mkdir dir,
            Screenshot (s_output (read_settings w opts)) (frame_clip (Some r)) False,
            BrowserClose,
            Stdout (''Wrote '' @ js_String (s_output (read_settings w opts)) @ ''\<newline>'')],
         exit_code = 0\<rparr>"
      by blast
    obtain c where c: "frame_clip (Some r) = Some c" by (simp add: frame_clip_def)
    have "screenshots (warnings w (read_settings w opts)) = []"
      using silent_warnings by (rule silent_no_screenshots)
    then have s: "screenshots (events (main w argv)) =
        [Screenshot (s_output (read_settings w opts)) (Some c) False]"
      unfolding m c by (simp add: screenshots_append) (simp add: screenshots_def)
    from h c s frame_clip_bounds [OF c] show ?thesis by blast
  qed
next
  assume h: "codeToHtml w code' (JStr ''javascript'') (JStr ''nord'') = Inr codeHtml'"
  then show "screenshots (fst (renderSnippet w code' difficulty outputPath)) =
      [Screenshot (JStr outputPath) None True]"
    by (simp add: renderSnippet_def screenshots_def)
  from h show "SetViewport \<lparr>vp_width = Num 1080, vp_height = Num 1920, deviceScaleFactor = Num 2\<rparr>
        \<in> set (fst (renderSnippet w code' difficulty outputPath))"
    by (simp add: renderSnippet_def reel_viewport_def)
  from h show "Evaluate \<notin> set (fst (renderSnippet w code' difficulty outputPath))"
    by (simp add: renderSnippet_def)
qed

text \<open>
  In the example environment the frame of the standalone document is measured at
  (64.5, 133.25), 960 by 153.6, and the one screenshot of the run is clipped to (64, 133),
  960 by 154: the clip starts half a pixel left of the frame and ends half a pixel before
  its right edge.
\<close>

theorem capture_regions_witness:
  \<open>screenshots (events (main demo_world [''--input'', ''example.js''])) =
     [Screenshot (JStr ''snippet.png'')
        (Some \<lparr>clip_x = 64, clip_y = 133, clip_width = 960, clip_height = 154\<rparr>) False] \<and>
   measure_frame demo_world
       (session_html demo_world
          (read_settings demo_world [''_'' \<mapsto> JArr [], ''input'' \<mapsto> JStr ''example.js''])
          ''<pre class="shiki"><code>console.log(1+1)</code></pre>'')
       (session_viewport
          (read_settings demo_world [''_'' \<mapsto> JArr [], ''input'' \<mapsto> JStr ''example.js''])
          ''console.log(1+1)'')
     = Some \<lparr>rect_x = 64.5, rect_y = 133.25, rect_width = 960, rect_height = 153.6\<rparr> \<and>
   codeToHtml demo_world ''console.log(1+1)'' (JStr ''javascript'') (JStr ''nord'')
     = Inr ''<pre class="shiki"><code>console.log(1+1)</code></pre>'' \<and>
   screenshots (fst (renderSnippet demo_world ''console.log(1+1)'' ''EASY'' ''snippet.png'')) =
     [Screenshot (JStr ''snippet.png'') None True] \<and>
   Evaluate \<notin> set (fst (renderSnippet demo_world ''console.log(1+1)'' ''EASY'' ''snippet.png''))\<close>
proof -
  have 1: \<open>codeToHtml demo_world ''console.log(1+1)'' (JStr ''javascript'') (JStr ''nord'')
     = Inr ''<pre class="shiki"><code>console.log(1+1)</code></pre>''\<close>
    by (simp add: demo_world_def)
  have 2: "screenshots (events (main demo_world [''--input'', ''example.js''])) =
     [Screenshot (JStr ''snippet.png'')
        (Some \<lparr>clip_x = 64, clip_y = 133, clip_width = 960, clip_height = 154\<rparr>) False]"
    by (simp add: demo_run screenshots_def)
  have 3: \<open>measure_frame demo_world
       (session_html demo_world
          (read_settings demo_world [''_'' \<mapsto> JArr [], ''input'' \<mapsto> JStr ''example.js''])
          ''<pre class="shiki"><code>console.log(1+1)</code></pre>'')
       (session_viewport
          (read_settings demo_world [''_'' \<mapsto> JArr [], ''input'' \<mapsto> JStr ''example.js''])
          ''console.log(1+1)'')
     = Some \<lparr>rect_x = 64.5, rect_y = 133.25, rect_width = 960, rect_height = 153.6\<rparr>\<close>
    using demo_measured by (simp add: demo_rect_def)
  show ?thesis
    using capture_regions [of demo_world "[''--input'', ''example.js'']" "''console.log(1+1)''"
        _ "''EASY''" "''snippet.png''"] 1 2 3
    by simp
qed

section \<open>Resolution of identifiers\<close>

lemma array_includes_JStr: "array_includes available v \<Longrightarrow> \<exists>s. v = JStr s \<and> s \<in> set available"
  by (cases v) (simp_all add: array_includes_def)

lemma resolveTheme_supported:
  assumes "available \<noteq> []" and "[] \<notin> set available"
  shows "array_includes available (resolveTheme available requested fallback)"
proof -
  obtain a as where "available = a # as" using assms(1) by (cases available) auto
  with assms(2) show ?thesis
    by (auto simp: resolveTheme_def array_includes_def first_or_def)
qed

lemma resolveLanguage_supported:
  assumes "available \<noteq> []" and "[] \<notin> set available"
  shows "array_includes available (resolveLanguage available requested fallback)"
proof -
  obtain a as where "available = a # as" using assms(1) by (cases available) auto
  with assms(2) show ?thesis
    by (auto simp: resolveLanguage_def Let_def array_includes_def first_or_def)
qed

text \<open>
  Claim C3, at the command line \<^verbatim>\<open>--input example.js --lang js\<close>, in the example environment:
  the alias \<^verbatim>\<open>js\<close> is expanded to \<^verbatim>\<open>javascript\<close>, which the highlighter supports, so
  the resolution does not fall back; yet the run, which succeeds, starts with the warning
  that the language was not found.
\<close>

theorem alias_resolution_warns:
  \<open>normalize_alias (JStr ''js'') = JStr ''javascript'' \<and>
   array_includes (bundledLanguages demo_world) (normalize_alias (JStr ''js'')) \<and>
   resolveLanguage (bundledLanguages demo_world) (JStr ''js'') ''javascript'' = JStr ''javascript'' \<and>
   hd (events (main demo_world [''--input'', ''example.js'', ''--lang'', ''js'']))
     = Stderr ''Language "js" not found. Using "javascript".\<newline>'' \<and>
   exit_code (main demo_world [''--input'', ''example.js'', ''--lang'', ''js'']) = 0\<close>
proof -
  have a: "normalize_alias (JStr ''js'') = JStr ''javascript''"
    by (simp add: normalize_alias_def aliases_def)
  have b: "array_includes (bundledLanguages demo_world) (JStr ''javascript'')"
    by (simp add: array_includes_def demo_world_def)
  have c: "resolveLanguage (bundledLanguages demo_world) (JStr ''js'') ''javascript'' = JStr ''javascript''"
    using b by (simp add: resolveLanguage_def a)
  show ?thesis unfolding a c demo_run_js using b by simp
qed

section \<open>Escaping in the composed documents\<close>

lemma replaceAll_append: "replaceAll c r (a @ b) = replaceAll c r a @ replaceAll c r b"
  by (induction a) simp_all

lemma escapeHtml_Nil: "escapeHtml [] = []"
  by (simp add: escapeHtml_def)

lemma escapeHtml_Cons: "escapeHtml (x # xs) = escape_char x @ escapeHtml xs"
  by (simp add: escapeHtml_def escape_char_def replaceAll_append)

text \<open>The five replacements in sequence are the replacement of every character by its entity.\<close>

lemma escapeHtml_concat: "escapeHtml s = concat (map escape_char s)"
  by (induction s) (simp_all add: escapeHtml_Nil escapeHtml_Cons)

lemma escape_char_safe:
  "set (escape_char c) \<inter> {CHR ''<'', CHR ''>'', CHR 0x22, CHR 0x27} = {}"
  by (simp add: escape_char_def)

lemma escapeHtml_safe:
  "set (escapeHtml s) \<inter> {CHR ''<'', CHR ''>'', CHR 0x22, CHR 0x27} = {}"
proof (induction s)
  case Nil
  show ?case by (simp add: escapeHtml_Nil)
next
  case (Cons x xs)
  then show ?case
    using escape_char_safe [of x] by (simp add: escapeHtml_Cons Int_Un_distrib2)
qed

lemma startsWith_iff: "startsWith s p \<longleftrightarrow> (\<exists>v. s = p @ v)"
  by (induction s p rule: startsWith.induct) auto

lemma includes_str_iff: "includes_str s p \<longleftrightarrow> (\<exists>u v. s = u @ p @ v)"
proof (induction s)
  case Nil
  show ?case by auto
next
  case (Cons x xs)
  show ?case
  proof
    assume "includes_str (x # xs) p"
    then consider "startsWith (x # xs) p" | "includes_str xs p" by auto
    then show "\<exists>u v. x # xs = u @ p @ v"
    proof cases
      case 1
      then obtain v where "x # xs = [] @ p @ v" by (auto simp: startsWith_iff)
      then show ?thesis by blast
    next
      case 2
      with Cons obtain u v where "xs = u @ p @ v" by auto
      then have "x # xs = (x # u) @ p @ v" by simp
      then show ?thesis by blast
    qed
  next
    assume "\<exists>u v. x # xs = u @ p @ v"
    then obtain u v where e: "x # xs = u @ p @ v" by auto
    show "includes_str (x # xs) p"
    proof (cases u)
      case Nil
      with e have "startsWith (x # xs) p" by (auto simp: startsWith_iff)
      then show ?thesis by simp
    next
      case (Cons y ys)
      with e have "xs = ys @ p @ v" by simp
      with Cons.IH show ?thesis by auto
    qed
  qed
qed

lemma join_with_mem: "l \<in> set ls \<Longrightarrow> \<exists>a b. join_with sep ls = a @ l @ b"
proof (induction sep ls rule: join_with.induct)
  case (1 sep)
  then show ?case by simp
next
  case (2 sep x)
  then have "join_with sep [x] = [] @ l @ []" by simp
  then show ?case by blast
next
  case (3 sep x y ys)
  show ?case
  proof (cases "l = x")
    case True
    then have "join_with sep (x # y # ys) = [] @ l @ (sep @ join_with sep (y # ys))" by simp
    then show ?thesis by blast
  next
    case False
    with 3 obtain a b where "join_with sep (y # ys) = a @ l @ b" by auto
    then have "join_with sep (x # y # ys) = (x @ sep @ a) @ l @ b" by simp
    then show ?thesis by blast
  qed
qed

lemma includes_line: "a @ p @ b \<in> set ls \<Longrightarrow> includes_str (join_with sep ls) p"
proof -
  assume "a @ p @ b \<in> set ls"
  then obtain u v where "join_with sep ls = u @ (a @ p @ b) @ v"
    using join_with_mem by blast
  then have "join_with sep ls = (u @ a) @ p @ (b @ v)" by simp
  then show ?thesis unfolding includes_str_iff by blast
qed

text \<open>
  The document of \<^verbatim>\<open>scripts/render-snippet.js\<close> holds the title and the theme name escaped
  and the markup of the highlighter as it is.
\<close>

lemma buildHtml_title_escaped:
  \<open>includes_str (buildHtml nts codeHtml width padding background font title themeName fontSize)
     (''<div class="title">'' @ escapeHtml (js_String title) @ ''</div>'')\<close>
  unfolding buildHtml_def
  by (rule includes_line [of "''        ''" _ "[]"]) simp

lemma buildHtml_theme_escaped:
  \<open>includes_str (buildHtml nts codeHtml width padding background font title themeName fontSize)
     (''<div class="theme-label">'' @ escapeHtml themeName @ ''</div>'')\<close>
  unfolding buildHtml_def
  by (rule includes_line [of "''        ''" _ "[]"]) simp

lemma buildHtml_code_verbatim:
  "includes_str (buildHtml nts codeHtml width padding background font title themeName fontSize) codeHtml"
  unfolding buildHtml_def
  by (rule includes_line [of "''        ''" _ "[]"]) simp

lemma reel_buildHtml_code_verbatim:
  "includes_str (reel_buildHtml nts codeHtml width height padding background font fontSize difficulty)
     codeHtml"
  unfolding reel_buildHtml_def
  by (rule includes_line [of "''      ''" _ "[]"]) simp

lemma reel_buildHtml_level_verbatim:
  \<open>includes_str (reel_buildHtml nts codeHtml width height padding background font fontSize difficulty)
     (''<div class="level">Level: '' @ difficulty @ ''</div>'')\<close>
  unfolding reel_buildHtml_def
  by (rule includes_line [of "''    ''" _ "[]"]) simp

text \<open>
  Claim C1, at the difficulty \<^verbatim>\<open><b>HARD</b>\<close>: the overlay document of \<^verbatim>\<open>main.js\<close> holds the
  text as it was given, with its angle brackets, where \<^verbatim>\<open>escapeHtml\<close> of the other program
  would have put the entities.
\<close>

theorem overlay_difficulty_not_escaped:
  \<open>includes_str
     (reel_buildHtml nts codeHtml width height padding background font fontSize ''<b>HARD</b>'')
     ''<div class="level">Level: <b>HARD</b></div>'' \<and>
   escapeHtml ''<b>HARD</b>'' = ''&lt;b&gt;HARD&lt;/b&gt;''\<close>
proof
  show \<open>includes_str
     (reel_buildHtml nts codeHtml width height padding background font fontSize ''<b>HARD</b>'')
     ''<div class="level">Level: <b>HARD</b></div>''\<close>
    using reel_buildHtml_level_verbatim
      [of nts codeHtml width height padding background font fontSize "''<b>HARD</b>''"]
    by simp
  show \<open>escapeHtml ''<b>HARD</b>'' = ''&lt;b&gt;HARD&lt;/b&gt;''\<close>
    by (simp add: escapeHtml_def)
qed


end
